theory Spec2Isabelle
  imports Complex_Main "HOL-Library.Log_Nat"
begin

section \<open>JavaScript strings and errors\<close>

text \<open>
  Strings are lists of 8-bit characters. \<open>toLowerCase\<close> is the ASCII part of
  \<^verbatim>\<open>String.prototype.toLowerCase\<close>: the letters A..Z are mapped to a..z and every
  other character is kept. \<open>str_includes s sub\<close> is \<^verbatim>\<open>s.includes(sub)\<close>.
\<close>

definition lowerChar :: "char \<Rightarrow> char" where
  "lowerChar c =
     (let n = (of_char c :: nat) in if 65 \<le> n \<and> n \<le> 90 then char_of (n + 32) else c)"

definition toLowerCase :: "string \<Rightarrow> string" where
  "toLowerCase s = map lowerChar s"

fun startsWith :: "string \<Rightarrow> string \<Rightarrow> bool" where
  "startsWith s [] = True"
| "startsWith [] (p # ps) = False"
| "startsWith (c # cs) (p # ps) = (c = p \<and> startsWith cs ps)"

fun str_includes :: "string \<Rightarrow> string \<Rightarrow> bool" where
  "str_includes [] sub = (sub = [])"
| "str_includes (c # cs) sub = (startsWith (c # cs) sub \<or> str_includes cs sub)"

text \<open>
  A JavaScript \<^verbatim>\<open>Error\<close> carries a message. A \<^verbatim>\<open>throw\<close> can raise any value:
  \<open>ThrownOther s\<close> is a thrown value that is not an \<^verbatim>\<open>Error\<close> and whose
  \<^verbatim>\<open>String(value)\<close> is \<open>s\<close>.
\<close>

datatype js_error = JsError (message: string)

datatype thrown = ThrownError js_error | ThrownOther string

section \<open>utils/retry: withRetry\<close>

text \<open>
  \<^verbatim>\<open>RetryOptions\<close>: every field is optional (\<open>None\<close> is an absent key).
  JavaScript numbers are idealised: the attempt count is a whole number, delays and the
  multiplier are reals. The \<open>onRetry\<close> hook only has an effect outside the function
  (the default does nothing, the callers log): it is not a field here, and each call of it
  is recorded in the trace of \<open>withRetry\<close>.
\<close>

record RetryOptions =
  maxAttempts :: "int option"
  initialDelayMs :: "real option"
  maxDelayMs :: "real option"
  backoffMultiplier :: "real option"
  retryableErrors :: "(js_error \<Rightarrow> bool) option"

text \<open>\<^verbatim>\<open>Required<RetryOptions>\<close>: the options after the defaults are merged in.\<close>

record RetryPolicy =
  p_maxAttempts :: int
  p_initialDelayMs :: real
  p_maxDelayMs :: real
  p_backoffMultiplier :: real
  p_retryableErrors :: "js_error \<Rightarrow> bool"

definition defaultRetryable :: "js_error \<Rightarrow> bool" where
  "defaultRetryable e =
     (let msg = toLowerCase (message e) in
        str_includes msg ''timeout'' \<or>
        str_includes msg ''rate limit'' \<or>
        str_includes msg ''econnreset'' \<or>
        str_includes msg ''enotfound'' \<or>
        str_includes msg ''socket hang up'' \<or>
        str_includes msg ''overloaded'' \<or>
        str_includes msg ''503'' \<or>
        str_includes msg ''529'')"

definition defaultOptions :: RetryPolicy where
  "defaultOptions =
     \<lparr> p_maxAttempts = 3, p_initialDelayMs = 1000, p_maxDelayMs = 10000,
       p_backoffMultiplier = 2, p_retryableErrors = defaultRetryable \<rparr>"

text \<open>\<^verbatim>\<open>const opts = { ...defaultOptions, ...options }\<close>\<close>

definition mergeOptions :: "RetryOptions \<Rightarrow> RetryPolicy" where
  "mergeOptions options =
     \<lparr> p_maxAttempts = (case maxAttempts options of None \<Rightarrow> p_maxAttempts defaultOptions | Some v \<Rightarrow> v),
       p_initialDelayMs = (case initialDelayMs options of None \<Rightarrow> p_initialDelayMs defaultOptions | Some v \<Rightarrow> v),
       p_maxDelayMs = (case maxDelayMs options of None \<Rightarrow> p_maxDelayMs defaultOptions | Some v \<Rightarrow> v),
       p_backoffMultiplier = (case backoffMultiplier options of None \<Rightarrow> p_backoffMultiplier defaultOptions | Some v \<Rightarrow> v),
       p_retryableErrors = (case retryableErrors options of None \<Rightarrow> p_retryableErrors defaultOptions | Some v \<Rightarrow> v) \<rparr>"

text \<open>\<^verbatim>\<open>error instanceof Error ? error : new Error(String(error))\<close>\<close>

fun toError :: "thrown \<Rightarrow> js_error" where
  "toError (ThrownError e) = e"
| "toError (ThrownOther s) = JsError s"

text \<open>
  What \<open>withRetry\<close> does besides returning: it invokes the operation, calls the
  \<open>onRetry\<close> hook and sleeps. The trace lists these effects in order.
\<close>

datatype retry_event = Invoke int | OnRetry js_error int | Sleep real

text \<open>
  The \<^verbatim>\<open>for (let attempt = 1; attempt <= opts.maxAttempts; attempt++)\<close> loop, entered
  at \<open>attempt\<close> with the current \<open>delay\<close> and \<open>lastError\<close>. The operation
  \<open>fn\<close> gives the outcome of the call made at each attempt: \<open>Inr v\<close> when the promise
  resolves with \<open>v\<close>, \<open>Inl t\<close> when it rejects with \<open>t\<close>. The result is \<open>Inr v\<close>
  for \<^verbatim>\<open>return v\<close> and \<open>Inl e\<close> for \<^verbatim>\<open>throw e\<close>.
\<close>

function retryLoop ::
  "RetryPolicy \<Rightarrow> (int \<Rightarrow> thrown + 'a) \<Rightarrow> int \<Rightarrow> real \<Rightarrow> js_error \<Rightarrow>
     (js_error + 'a) \<times> retry_event list" where
  "retryLoop opts fn attempt delay lastError =
     (if attempt \<le> p_maxAttempts opts then
        (case fn attempt of
           Inr v \<Rightarrow> (Inr v, [Invoke attempt])
         | Inl t \<Rightarrow>
             (if attempt = p_maxAttempts opts \<or> \<not> p_retryableErrors opts (toError t)
              then (Inl (toError t), [Invoke attempt])
              else
                (case retryLoop opts fn (attempt + 1)
                        (min (delay * p_backoffMultiplier opts) (p_maxDelayMs opts)) (toError t) of
                   (r, tr) \<Rightarrow>
                     (r, Invoke attempt # OnRetry (toError t) attempt # Sleep delay # tr))))
      else (Inl lastError, []))"
  by pat_completeness auto
termination
  by (relation "measure (\<lambda>(opts, fn, attempt, delay, lastError). nat (p_maxAttempts opts + 1 - attempt))")
     auto

definition withRetry ::
  "(int \<Rightarrow> thrown + 'a) \<Rightarrow> RetryOptions \<Rightarrow> (js_error + 'a) \<times> retry_event list" where
  "withRetry fn options =
     (let opts = mergeOptions options in
        retryLoop opts fn 1 (p_initialDelayMs opts) (JsError ''Unknown error''))"

text \<open>The numbers of invocations and the delays slept, read off a trace.\<close>

fun invocations :: "retry_event list \<Rightarrow> nat" where
  "invocations [] = 0"
| "invocations (Invoke k # tr) = Suc (invocations tr)"
| "invocations (e # tr) = invocations tr"

fun sleeps :: "retry_event list \<Rightarrow> real list" where
  "sleeps [] = []"
| "sleeps (Sleep d # tr) = d # sleeps tr"
| "sleeps (e # tr) = sleeps tr"

text \<open>
  The delays of \<open>n\<close> successive retries when the current delay is \<open>d\<close>: the loop
  sleeps \<open>d\<close> as it is, then continues with
  \<^verbatim>\<open>Math.min(delay * backoffMultiplier, maxDelayMs)\<close>.
\<close>

fun delaysFrom :: "RetryPolicy \<Rightarrow> real \<Rightarrow> nat \<Rightarrow> real list" where
  "delaysFrom opts d 0 = []"
| "delaysFrom opts d (Suc n) =
     d # delaysFrom opts (min (d * p_backoffMultiplier opts) (p_maxDelayMs opts)) n"

definition alwaysFailsRetryable :: "RetryPolicy \<Rightarrow> (int \<Rightarrow> thrown + 'a) \<Rightarrow> bool" where
  "alwaysFailsRetryable opts fn =
     (\<forall>k. case fn k of Inl t \<Rightarrow> p_retryableErrors opts (toError t) | Inr v \<Rightarrow> False)"

declare retryLoop.simps [simp del]

section \<open>Values parsed from JSON\<close>

text \<open>
  The reasoning service answers with JSON text; \<^verbatim>\<open>JSON.parse\<close> gives a value of any
  shape. \<open>JUndefined\<close> is what reading an absent property gives.
\<close>

datatype jsval =
    JUndefined
  | JNull
  | JBool bool
  | JNum real
  | JStr string
  | JArr "jsval list"
  | JObj "(string \<times> jsval) list"

definition typeError :: js_error where
  "typeError = JsError ''TypeError''"

text \<open>JavaScript truthiness, and \<^verbatim>\<open>a || b\<close>.\<close>

fun truthy :: "jsval \<Rightarrow> bool" where
  "truthy JUndefined = False"
| "truthy JNull = False"
| "truthy (JBool b) = b"
| "truthy (JNum n) = (n \<noteq> 0)"
| "truthy (JStr s) = (s \<noteq> [])"
| "truthy (JArr xs) = True"
| "truthy (JObj kvs) = True"

definition js_or :: "jsval \<Rightarrow> jsval \<Rightarrow> jsval" where
  "js_or a b = (if truthy a then a else b)"

text \<open>
  Reading a property \<^verbatim>\<open>v.k\<close>: a \<^verbatim>\<open>TypeError\<close> on \<^verbatim>\<open>null\<close> and \<^verbatim>\<open>undefined\<close>, the
  stored value on an object that has the key, \<^verbatim>\<open>undefined\<close> otherwise (none of the
  property names the analyzer reads is a built-in property of a string, number, boolean
  or array).
\<close>

fun getProp :: "jsval \<Rightarrow> string \<Rightarrow> js_error + jsval" where
  "getProp JUndefined k = Inl typeError"
| "getProp JNull k = Inl typeError"
| "getProp (JObj kvs) k = Inr (case map_of kvs k of None \<Rightarrow> JUndefined | Some v \<Rightarrow> v)"
| "getProp v k = Inr JUndefined"

fun isArray :: "jsval \<Rightarrow> bool" where
  "isArray (JArr xs) = True"
| "isArray v = False"

text \<open>\<^verbatim>\<open>valid.includes(v) ? v : dflt\<close> for an array \<open>valid\<close> of strings.\<close>

fun oneOf :: "string list \<Rightarrow> string \<Rightarrow> jsval \<Rightarrow> string" where
  "oneOf valid dflt (JStr s) = (if s \<in> set valid then s else dflt)"
| "oneOf valid dflt v = dflt"

text \<open>\<^verbatim>\<open>Array.isArray(v) ? v : []\<close>\<close>

fun arrayOrEmpty :: "jsval \<Rightarrow> jsval list" where
  "arrayOrEmpty (JArr xs) = xs"
| "arrayOrEmpty v = []"

text \<open>Sequencing of computations that may throw; \<open>mapE\<close> stops at the first throw.\<close>

definition bind_err :: "'e + 'a \<Rightarrow> ('a \<Rightarrow> 'e + 'b) \<Rightarrow> 'e + 'b" where
  "bind_err m f = (case m of Inl e \<Rightarrow> Inl e | Inr x \<Rightarrow> f x)"

fun mapE :: "('a \<Rightarrow> 'e + 'b) \<Rightarrow> 'a list \<Rightarrow> 'e + 'b list" where
  "mapE f [] = Inr []"
| "mapE f (x # xs) = bind_err (f x) (\<lambda>y. bind_err (mapE f xs) (\<lambda>ys. Inr (y # ys)))"

text \<open>
  \<^verbatim>\<open>String.prototype.trim\<close> on ASCII white space (space, tab, line feed, vertical tab,
  form feed, carriage return).
\<close>

definition isWhitespace :: "char \<Rightarrow> bool" where
  "isWhitespace c = (c \<in> set [CHR '' '', CHR 0x09, CHR 0x0A, CHR 0x0B, CHR 0x0C, CHR 0x0D])"

definition trim :: "string \<Rightarrow> string" where
  "trim s = rev (dropWhile isWhitespace (rev (dropWhile isWhitespace s)))"

section \<open>analyzer/codeAnalyzer: validation of the reasoning service's answer\<close>

record 't RiskAssessment =
  risk_level :: string
  risk_description :: 't
  risk_recommendation :: 't

record SuggestedTest =
  test_type :: string
  test_description :: jsval
  test_priority :: string
  test_reason :: jsval

record CodeAnalysisResult =
  purpose :: jsval
  mainPurposeCategory :: string
  codeType :: string
  complexity :: string
  dependencies :: "jsval list"
  exports :: "jsval list"
  potentialPurposes :: "jsval list"
  whyItExists :: jsval
  risks :: "jsval RiskAssessment list"
  suggestedTests :: "SuggestedTest list"

definition validCategories :: "string list" where
  "validCategories =
     [''business-logic'', ''ui-ux'', ''data-access'', ''state-management'', ''routing'',
      ''authentication'', ''authorization'',
      ''validation'', ''data-transform'', ''search'',
      ''api-client'', ''real-time'', ''notification'', ''event-system'',
      ''ai-ml'',
      ''payment'', ''analytics'',
      ''file-handling'',
      ''animation'', ''theming'', ''accessibility'', ''localization'',
      ''infrastructure'', ''middleware'', ''observability'', ''scheduling'', ''migration'',
      ''security'', ''rate-limiting'',
      ''testing'', ''utility'', ''performance'', ''feature-flag'', ''legacy'',
      ''geolocation'', ''unknown'']"

definition validateMainPurposeCategory :: "jsval \<Rightarrow> string" where
  "validateMainPurposeCategory category = oneOf validCategories ''unknown'' category"

definition validTypes :: "string list" where
  "validTypes = [''function'', ''class'', ''component'', ''module'', ''configuration'', ''test'',
                 ''utility'', ''api'', ''unknown'']"

definition validateCodeType :: "jsval \<Rightarrow> string" where
  "validateCodeType type = oneOf validTypes ''unknown'' type"

definition validLevels :: "string list" where
  "validLevels = [''low'', ''medium'', ''high'', ''very-high'']"

definition validateComplexity :: "jsval \<Rightarrow> string" where
  "validateComplexity c = oneOf validLevels ''medium'' c"

definition validateRisk :: "jsval \<Rightarrow> js_error + jsval RiskAssessment" where
  "validateRisk risk =
     bind_err (getProp risk ''level'') (\<lambda>lv.
     bind_err (getProp risk ''description'') (\<lambda>d.
     bind_err (getProp risk ''recommendation'') (\<lambda>r.
       Inr \<lparr> risk_level = oneOf [''low'', ''medium'', ''high'', ''critical''] ''medium'' lv,
             risk_description = js_or d (JStr ''Risk identified''),
             risk_recommendation = js_or r (JStr ''Review carefully before changes'') \<rparr>)))"

definition noRisksIdentified :: "jsval RiskAssessment" where
  "noRisksIdentified =
     \<lparr> risk_level = ''low'',
       risk_description = JStr ''No specific risks identified'',
       risk_recommendation = JStr ''Standard testing practices should be sufficient'' \<rparr>"

fun validateRisks :: "jsval \<Rightarrow> js_error + jsval RiskAssessment list" where
  "validateRisks (JArr rs) = mapE validateRisk rs"
| "validateRisks v = Inr [noRisksIdentified]"

definition validateTest :: "jsval \<Rightarrow> js_error + SuggestedTest" where
  "validateTest test =
     bind_err (getProp test ''type'') (\<lambda>ty.
     bind_err (getProp test ''description'') (\<lambda>d.
     bind_err (getProp test ''priority'') (\<lambda>p.
     bind_err (getProp test ''reason'') (\<lambda>r.
       Inr \<lparr> test_type = oneOf [''unit'', ''integration'', ''e2e'', ''manual''] ''unit'' ty,
             test_description = js_or d (JStr ''Test case''),
             test_priority = oneOf [''high'', ''medium'', ''low''] ''medium'' p,
             test_reason = js_or r JUndefined \<rparr>))))"

text \<open>
  The key of the duplicate filter,
  \<^verbatim>\<open>`${test.type}:${test.description.toLowerCase().trim()}`\<close>. A description that is
  not a string has no \<^verbatim>\<open>toLowerCase\<close> method: the call throws.
\<close>

definition normalized :: "string \<Rightarrow> string" where
  "normalized s = trim (toLowerCase s)"

definition testKey :: "SuggestedTest \<Rightarrow> js_error + string" where
  "testKey t =
     (case test_description t of
        JStr s \<Rightarrow> Inr (test_type t @ '':'' @ normalized s)
      | _ \<Rightarrow> Inl typeError)"

text \<open>The \<^verbatim>\<open>filter\<close> with the \<^verbatim>\<open>seen\<close> set.\<close>

fun uniqueTests :: "string set \<Rightarrow> SuggestedTest list \<Rightarrow> js_error + SuggestedTest list" where
  "uniqueTests seen [] = Inr []"
| "uniqueTests seen (t # ts) =
     bind_err (testKey t) (\<lambda>key.
       if key \<in> seen then uniqueTests seen ts
       else bind_err (uniqueTests (insert key seen) ts) (\<lambda>r. Inr (t # r)))"

text \<open>
  \<^verbatim>\<open>priorityOrder = { high: 0, medium: 1, low: 2 }\<close>; a validated priority is one of the
  three. \<^verbatim>\<open>Array.prototype.sort\<close> with the comparator
  \<^verbatim>\<open>priorityOrder[a.priority] - priorityOrder[b.priority]\<close> is a stable sort by that
  number, which is what \<open>sort_key\<close> is.
\<close>

definition priorityOrder :: "string \<Rightarrow> nat" where
  "priorityOrder p = (if p = ''high'' then 0 else if p = ''medium'' then 1 else 2)"

fun validateSuggestedTests :: "jsval \<Rightarrow> js_error + SuggestedTest list" where
  "validateSuggestedTests (JArr tests) =
     bind_err (mapE validateTest tests) (\<lambda>validatedTests.
     bind_err (uniqueTests {} validatedTests) (\<lambda>unique.
       Inr (sort_key (\<lambda>t. priorityOrder (test_priority t)) unique)))"
| "validateSuggestedTests v = Inr []"

text \<open>
  The object \<open>analyzeWithClaude\<close> returns from the parsed answer \<open>analysis\<close> (an object:
  the text parsed starts with a brace). \<open>field\<close> reads a property of it.
\<close>

definition field :: "(string \<times> jsval) list \<Rightarrow> string \<Rightarrow> jsval" where
  "field analysis k = (case map_of analysis k of None \<Rightarrow> JUndefined | Some v \<Rightarrow> v)"

definition mapAnalysis :: "(string \<times> jsval) list \<Rightarrow> js_error + CodeAnalysisResult" where
  "mapAnalysis analysis =
     bind_err (validateRisks (field analysis ''risks'')) (\<lambda>rs.
     bind_err (validateSuggestedTests (field analysis ''suggestedTests'')) (\<lambda>ts.
       Inr \<lparr> purpose = js_or (field analysis ''purpose'') (JStr ''Unable to determine purpose''),
             mainPurposeCategory = validateMainPurposeCategory (field analysis ''mainPurposeCategory''),
             codeType = validateCodeType (field analysis ''codeType''),
             complexity = validateComplexity (field analysis ''complexity''),
             dependencies = arrayOrEmpty (field analysis ''dependencies''),
             exports = arrayOrEmpty (field analysis ''exports''),
             potentialPurposes = arrayOrEmpty (field analysis ''potentialPurposes''),
             whyItExists = js_or (field analysis ''whyItExists'') JUndefined,
             risks = rs,
             suggestedTests = ts \<rparr>))"


text \<open>
  The pair the duplicate filter identifies a test by: its type and its lower-cased,
  trimmed description.
\<close>

definition typeAndDescription :: "SuggestedTest \<Rightarrow> string \<times> string" where
  "typeAndDescription t =
     (test_type t, case test_description t of JStr s \<Rightarrow> normalized s | _ \<Rightarrow> [])"

section \<open>analyzer/codeAnalyzer: the heuristic strategy\<close>

text \<open>Decimal digits of a number, as \<^verbatim>\<open>`${n}`\<close> prints a non-negative integer.\<close>

definition digitChar :: "nat \<Rightarrow> char" where
  "digitChar d = char_of (48 + d)"

function showNat :: "nat \<Rightarrow> string" where
  "showNat n = (if n < 10 then [digitChar n] else showNat (n div 10) @ [digitChar (n mod 10)])"
  by pat_completeness auto
termination
  by (relation "measure id") auto

declare showNat.simps [simp del]

text \<open>The comparator's table \<^verbatim>\<open>{ critical: 0, high: 1, medium: 2, low: 3 }\<close>.\<close>

definition riskOrder :: "string \<Rightarrow> nat" where
  "riskOrder l =
     (if l = ''critical'' then 0 else if l = ''high'' then 1 else if l = ''medium'' then 2 else 3)"

definition assessRisks :: "string \<Rightarrow> string \<Rightarrow> string list \<Rightarrow> string RiskAssessment list" where
  "assessRisks code cplx deps =
     (let r1 = (if cplx = ''high'' \<or> cplx = ''very-high'' then
                  [\<lparr> risk_level = (if cplx = ''very-high'' then ''high'' else ''medium''),
                     risk_description = ''High code complexity makes changes error-prone'',
                     risk_recommendation = ''Consider refactoring into smaller, more focused functions'' \<rparr>]
                else []);
          r2 = r1 @ (if length deps > 10 then
                  [\<lparr> risk_level = ''medium'',
                     risk_description = ''High number of dependencies ('' @ showNat (length deps) @ '')'',
                     risk_recommendation = ''Changes may have cascading effects. Review import usage carefully.'' \<rparr>]
                else []);
          r3 = r2 @ (if str_includes code ''window.'' \<or> str_includes code ''global.'' \<or>
                        str_includes code ''globalThis.'' then
                  [\<lparr> risk_level = ''high'',
                     risk_description = ''Modifies global state'',
                     risk_recommendation = ''Global state changes can cause hard-to-debug issues.'' \<rparr>]
                else []);
          r4 = r3 @ (if str_includes code ''eval('' \<or> str_includes code ''innerHTML'' then
                  [\<lparr> risk_level = ''critical'',
                     risk_description = ''Potential security vulnerability (eval/innerHTML)'',
                     risk_recommendation = ''These patterns can lead to XSS attacks. Use safer alternatives.'' \<rparr>]
                else []);
          r5 = r4 @ (if length r4 = 0 then
                  [\<lparr> risk_level = ''low'',
                     risk_description = ''No significant risks detected'',
                     risk_recommendation = ''Standard testing practices should be sufficient for changes.'' \<rparr>]
                else [])
      in sort_key (\<lambda>r. riskOrder (risk_level r)) r5)"

text \<open>The filter's string key as a function of a validated test (see \<open>testKey\<close>).\<close>

definition keyStr :: "SuggestedTest \<Rightarrow> string" where
  "keyStr t = fst (typeAndDescription t) @ '':'' @ snd (typeAndDescription t)"






section \<open>analyzer/codeAnalyzer: inferMainPurposeCategory\<close>

text \<open>
  \<^verbatim>\<open>path.basename\<close> on a POSIX path: trailing slashes are dropped and the part after
  the last remaining slash is returned.
\<close>

definition basename :: "string \<Rightarrow> string" where
  "basename p = rev (takeWhile (\<lambda>c. c \<noteq> CHR ''/'') (dropWhile (\<lambda>c. c = CHR ''/'') (rev p)))"

text \<open>
  The conditions of the \<^verbatim>\<open>if\<close> statements of \<open>inferMainPurposeCategory\<close>, in the
  order of the source. \<open>fileName\<close> is the lower-cased base name of the path,
  \<open>lowerCode\<close> the lower-cased code; the legacy check also reads the code as given.
\<close>

definition testingIndicators :: "string \<Rightarrow> string \<Rightarrow> bool" where
  "testingIndicators ct fileName =
     (ct = ''test'' \<or> str_includes fileName ''test'' \<or> str_includes fileName ''spec'' \<or>
      str_includes fileName ''mock'' \<or> str_includes fileName ''fixture'')"

definition authenticationIndicators :: "string \<Rightarrow> string \<Rightarrow> bool" where
  "authenticationIndicators lowerCode fileName =
     (str_includes lowerCode ''auth'' \<or> str_includes lowerCode ''login'' \<or>
      str_includes lowerCode ''password'' \<or> str_includes lowerCode ''token'' \<or>
      str_includes lowerCode ''session'' \<or> str_includes lowerCode ''oauth'' \<or>
      str_includes fileName ''auth'' \<or> str_includes fileName ''login'')"

definition securityIndicators :: "string \<Rightarrow> bool" where
  "securityIndicators lowerCode =
     (str_includes lowerCode ''encrypt'' \<or> str_includes lowerCode ''csrf'' \<or>
      str_includes lowerCode ''xss'' \<or> str_includes lowerCode ''sanitize'' \<or>
      str_includes lowerCode ''security'')"

definition infrastructureIndicators :: "string \<Rightarrow> string \<Rightarrow> bool" where
  "infrastructureIndicators ct fileName =
     (ct = ''configuration'' \<or> str_includes fileName ''config'' \<or>
      str_includes fileName ''webpack'' \<or> str_includes fileName ''babel'' \<or>
      str_includes fileName ''eslint'' \<or> str_includes fileName ''docker'' \<or>
      str_includes fileName ''ci'' \<or> str_includes fileName ''env'')"

definition uiIndicators :: "string \<Rightarrow> string \<Rightarrow> string \<Rightarrow> bool" where
  "uiIndicators ct lowerCode fileName =
     (ct = ''component'' \<or> str_includes lowerCode ''render'' \<or> str_includes lowerCode ''style'' \<or>
      str_includes lowerCode ''animation'' \<or> str_includes lowerCode ''css'' \<or>
      str_includes lowerCode ''theme'' \<or>
      str_includes fileName ''component'' \<or> str_includes fileName ''view'' \<or>
      str_includes fileName ''page'' \<or>
      str_includes fileName ''style'' \<or> str_includes fileName ''ui'')"

definition dataAccessIndicators :: "string \<Rightarrow> string \<Rightarrow> bool" where
  "dataAccessIndicators lowerCode fileName =
     (str_includes lowerCode ''fetch'' \<or> str_includes lowerCode ''axios'' \<or>
      str_includes lowerCode ''query'' \<or>
      str_includes lowerCode ''database'' \<or> str_includes lowerCode ''repository'' \<or>
      str_includes lowerCode ''api'' \<or>
      str_includes lowerCode ''graphql'' \<or> str_includes lowerCode ''prisma'' \<or>
      str_includes lowerCode ''mongoose'' \<or>
      str_includes fileName ''api'' \<or> str_includes fileName ''service'' \<or>
      str_includes fileName ''repository'')"

definition integrationIndicators :: "string \<Rightarrow> string \<Rightarrow> bool" where
  "integrationIndicators lowerCode fileName =
     (str_includes lowerCode ''webhook'' \<or> str_includes lowerCode ''stripe'' \<or>
      str_includes lowerCode ''aws'' \<or>
      str_includes lowerCode ''firebase'' \<or> str_includes lowerCode ''twilio'' \<or>
      str_includes lowerCode ''slack'' \<or>
      str_includes fileName ''integration'' \<or> str_includes fileName ''plugin'')"

definition performanceIndicators :: "string \<Rightarrow> bool" where
  "performanceIndicators lowerCode =
     (str_includes lowerCode ''cache'' \<or> str_includes lowerCode ''memo'' \<or>
      str_includes lowerCode ''lazy'' \<or>
      str_includes lowerCode ''debounce'' \<or> str_includes lowerCode ''throttle'' \<or>
      str_includes lowerCode ''optimize'')"

definition legacyIndicators :: "string \<Rightarrow> string \<Rightarrow> bool" where
  "legacyIndicators lowerCode code =
     (str_includes lowerCode ''deprecated'' \<or> str_includes lowerCode ''todo:'' \<or>
      str_includes lowerCode ''fixme'' \<or>
      str_includes lowerCode ''hack'' \<or> str_includes lowerCode ''workaround'' \<or>
      str_includes lowerCode ''legacy'' \<or>
      str_includes code ''var '')"

definition utilityIndicators :: "string \<Rightarrow> string \<Rightarrow> bool" where
  "utilityIndicators ct fileName =
     (ct = ''utility'' \<or> str_includes fileName ''util'' \<or> str_includes fileName ''helper'' \<or>
      str_includes fileName ''common'' \<or> str_includes fileName ''shared'')"

definition businessLogicShape :: "string \<Rightarrow> bool" where
  "businessLogicShape ct = (ct = ''class'' \<or> ct = ''function'' \<or> ct = ''module'')"

definition inferMainPurposeCategory :: "string \<Rightarrow> string \<Rightarrow> string \<Rightarrow> string" where
  "inferMainPurposeCategory code filePath ct =
     (let fileName = toLowerCase (basename filePath);
          lowerCode = toLowerCase code
      in if testingIndicators ct fileName then ''testing''
         else if authenticationIndicators lowerCode fileName then ''authentication''
         else if securityIndicators lowerCode then ''security''
         else if infrastructureIndicators ct fileName then ''infrastructure''
         else if uiIndicators ct lowerCode fileName then ''ui-ux''
         else if dataAccessIndicators lowerCode fileName then ''data-access''
         else if integrationIndicators lowerCode fileName then ''api-client''
         else if performanceIndicators lowerCode then ''performance''
         else if legacyIndicators lowerCode code then ''legacy''
         else if utilityIndicators ct fileName then ''utility''
         else if businessLogicShape ct then ''business-logic''
         else ''unknown'')"

text \<open>
  The chain as the specification words it: an ordered table of rules, each a condition
  and the category it assigns, read with "the first matching rule wins".
\<close>

definition categoryRules :: "string \<Rightarrow> string \<Rightarrow> string \<Rightarrow> (bool \<times> string) list" where
  "categoryRules code filePath ct =
     (let fileName = toLowerCase (basename filePath);
          lowerCode = toLowerCase code
      in [(testingIndicators ct fileName, ''testing''),
          (authenticationIndicators lowerCode fileName, ''authentication''),
          (securityIndicators lowerCode, ''security''),
          (infrastructureIndicators ct fileName, ''infrastructure''),
          (uiIndicators ct lowerCode fileName, ''ui-ux''),
          (dataAccessIndicators lowerCode fileName, ''data-access''),
          (integrationIndicators lowerCode fileName, ''api-client''),
          (performanceIndicators lowerCode, ''performance''),
          (legacyIndicators lowerCode code, ''legacy''),
          (utilityIndicators ct fileName, ''utility''),
          (businessLogicShape ct, ''business-logic'')])"

fun firstMatch :: "(bool \<times> 'a) list \<Rightarrow> 'a \<Rightarrow> 'a" where
  "firstMatch [] dflt = dflt"
| "firstMatch ((c, v) # rs) dflt = (if c then v else firstMatch rs dflt)"

section \<open>analyzer/githubAnalyzer: getPRsForCommit\<close>

text \<open>
  A pull request as the GitHub REST API documents it for
  \<^verbatim>\<open>/repos/{owner}/{repo}/commits/{sha}/pulls\<close>: \<open>merged_at\<close> is \<^verbatim>\<open>null\<close> (\<open>None\<close>) or
  a timestamp, \<open>body\<close> is \<^verbatim>\<open>null\<close> or a string, \<open>user\<close> is \<^verbatim>\<open>null\<close> or an object with
  a login.
\<close>

record ApiLabel =
  label_name :: string

record ApiUser =
  login :: string

record ApiPullRequest =
  api_number :: int
  api_title :: string
  api_html_url :: string
  api_user :: "ApiUser option"
  api_state :: string
  api_created_at :: string
  api_merged_at :: "string option"
  api_body :: "string option"
  api_labels :: "ApiLabel list"

record PullRequestInfo =
  pr_number :: int
  pr_title :: string
  pr_url :: string
  pr_author :: string
  pr_state :: string
  pr_createdAt :: string
  pr_mergedAt :: "string option"
  pr_description :: string
  pr_labels :: "string list"

definition truncateDescription :: "string \<Rightarrow> string" where
  "truncateDescription d = (if length d \<le> 500 then d else take 500 d @ ''...'')"

text \<open>
  \<^verbatim>\<open>x || dflt\<close> on a string or \<^verbatim>\<open>null\<close>: the empty string is falsy as \<^verbatim>\<open>null\<close> is.
\<close>

definition strOr :: "string option \<Rightarrow> string \<Rightarrow> string" where
  "strOr x dflt = (case x of None \<Rightarrow> dflt | Some s \<Rightarrow> if s = [] then dflt else s)"

text \<open>The function mapped over the response: \<^verbatim>\<open>state: pr.merged_at ? 'merged' : pr.state\<close>.\<close>

definition toPullRequestInfo :: "ApiPullRequest \<Rightarrow> PullRequestInfo" where
  "toPullRequestInfo pr =
     \<lparr> pr_number = api_number pr,
       pr_title = api_title pr,
       pr_url = api_html_url pr,
       pr_author = strOr (map_option login (api_user pr)) ''Unknown'',
       pr_state = (case api_merged_at pr of
                     None \<Rightarrow> api_state pr
                   | Some ts \<Rightarrow> if ts = [] then api_state pr else ''merged''),
       pr_createdAt = api_created_at pr,
       pr_mergedAt = api_merged_at pr,
       pr_description = truncateDescription (strOr (api_body pr) []),
       pr_labels = map label_name (api_labels pr) \<rparr>"

text \<open>
  What the request settles with after \<open>withRetry\<close>: an error, a body that is not an
  array, or an array of pull requests. Every error is caught and gives no records.
\<close>

datatype api_response = NotAnArray | PullRequests "ApiPullRequest list"

fun getPRsForCommit :: "js_error + api_response \<Rightarrow> PullRequestInfo list" where
  "getPRsForCommit (Inl e) = []"
| "getPRsForCommit (Inr NotAnArray) = []"
| "getPRsForCommit (Inr (PullRequests data)) = map toPullRequestInfo data"

text \<open>A merge timestamp: a date-time string, which is never empty.\<close>

definition isTimestamp :: "string \<Rightarrow> bool" where
  "isTimestamp ts = (ts \<noteq> [])"

section \<open>analyzer/gitAnalyzer: calculateOwnership\<close>







text \<open>
  JavaScript numbers are IEEE 754 doubles, and \<^verbatim>\<open>/\<close> and \<^verbatim>\<open>*\<close> return the double
  nearest to the exact quotient and product, a tie going to the even significand. A
  double is modelled by the rational number it stands for. \<open>roundHalfEven\<close> rounds to
  the nearest integer, a tie to the even one; \<open>binade x\<close> is the scale \<open>s\<close> that puts
  a positive \<open>x\<close> into the range of 53-bit significands,
  \<open>2 ^ 52 \<le> x * 2 powi s < 2 ^ 53\<close>; \<open>toDouble x\<close> is the double nearest to \<open>x\<close>.
  The exponent range of doubles is not modelled (no overflow, no subnormal numbers): a
  quotient of two array lengths and its product with 100 are far inside it.
\<close>

definition roundHalfEven :: "rat \<Rightarrow> int" where
  "roundHalfEven x =
     (let f = \<lfloor>x\<rfloor>; d = x - of_int f in
        if d < 1 / 2 then f else if 1 / 2 < d then f + 1 else if even f then f else f + 1)"

definition binade :: "rat \<Rightarrow> int" where
  "binade x =
     (let s0 = 53 - (bitlen (fst (quotient_of x)) - bitlen (snd (quotient_of x))) in
        if x * 2 powi s0 < 2 ^ 53 then s0 else s0 - 1)"

definition toDouble :: "rat \<Rightarrow> rat" where
  "toDouble x =
     (if x = 0 then 0
      else sgn x * of_int (roundHalfEven (\<bar>x\<bar> * 2 powi binade \<bar>x\<bar>)) / 2 powi binade \<bar>x\<bar>)"

definition doubleDiv :: "rat \<Rightarrow> rat \<Rightarrow> rat" where
  "doubleDiv a b = toDouble (a / b)"

definition doubleMul :: "rat \<Rightarrow> rat \<Rightarrow> rat" where
  "doubleMul a b = toDouble (a * b)"

text \<open>
  \<^verbatim>\<open>Math.round\<close> gives the integer nearest to a double, a half going upwards: this is
  exact, no rounding of the result takes place.
\<close>

definition Math_round :: "rat \<Rightarrow> int" where
  "Math_round x = \<lfloor>x + 1 / 2\<rfloor>"

text \<open>\<^verbatim>\<open>percentage: Math.round((owner.commits / totalCommits) * 100)\<close>\<close>

definition percentageOf :: "nat \<Rightarrow> nat \<Rightarrow> int" where
  "percentageOf ownerCommits totalCommits =
     Math_round (doubleMul (doubleDiv (of_nat ownerCommits) (of_nat totalCommits)) 100)"



section \<open>extension: the analysis cache\<close>

text \<open>
  \<open>AnalysisResult\<close>. The three analyses are kept abstract. \<open>analyzedAt\<close> is the instant
  \<^verbatim>\<open>new Date()\<close> read, in milliseconds: the source stores it as an ISO string and reads
  it back with \<^verbatim>\<open>new Date(...).getTime()\<close>, which gives the same number. The optional
  fields \<open>fromCache\<close> and \<open>cacheAge\<close> are \<open>None\<close> when absent.
\<close>

record ('c, 'g, 'h) AnalysisResult =
  r_filePath :: string
  r_startLine :: int
  r_endLine :: int
  r_code :: string
  r_codeAnalysis :: 'c
  r_gitAnalysis :: 'g
  r_githubAnalysis :: 'h
  r_analyzedAt :: int
  r_fromCache :: "bool option"
  r_cacheAge :: "int option"

record ('c, 'g, 'h) CacheEntry =
  e_result :: "('c, 'g, 'h) AnalysisResult"
  e_codeHash :: string
  e_timestamp :: int

text \<open>
  The module's variables: the cache (a \<^verbatim>\<open>Map\<close> from key to entry), the last analysis
  and the two flags.
\<close>

record ('c, 'g, 'h) ext_state =
  analysisCache :: "string \<rightharpoonup> ('c, 'g, 'h) CacheEntry"
  lastAnalysis :: "(string \<times> int \<times> int \<times> string) option"
  analysisInProgress :: bool
  analysisCancelled :: bool

text \<open>
  What the module reads from outside: the MD5 digest of \<^verbatim>\<open>crypto\<close> (any function from
  text to text) and the setting \<open>cacheTtlMinutes\<close>. The clock \<^verbatim>\<open>Date.now()\<close> is an
  argument of each function that reads it, in milliseconds.
\<close>

record ext_env =
  md5 :: "string \<Rightarrow> string"
  cacheTtlMinutes :: real

definition getCacheTtlMs :: "ext_env \<Rightarrow> real" where
  "getCacheTtlMs env = cacheTtlMinutes env * 60 * 1000"

definition showInt :: "int \<Rightarrow> string" where
  "showInt n = (if n < 0 then ''-'' @ showNat (nat (- n)) else showNat (nat n))"

definition getCacheKey :: "string \<Rightarrow> int \<Rightarrow> int \<Rightarrow> string" where
  "getCacheKey filePath startLine endLine =
     filePath @ '':'' @ showInt startLine @ '':'' @ showInt endLine"

definition getCodeHash :: "ext_env \<Rightarrow> string \<Rightarrow> string" where
  "getCodeHash env code = md5 env code"

text \<open>\<open>getCachedResult\<close> returns the cached result or \<^verbatim>\<open>null\<close>, and the state after it.\<close>

definition getCachedResult ::
  "ext_env \<Rightarrow> int \<Rightarrow> string \<Rightarrow> int \<Rightarrow> int \<Rightarrow> string \<Rightarrow> ('c, 'g, 'h) ext_state \<Rightarrow>
     ('c, 'g, 'h) AnalysisResult option \<times> ('c, 'g, 'h) ext_state" where
  "getCachedResult env now filePath startLine endLine code s =
     (let key = getCacheKey filePath startLine endLine in
        case analysisCache s key of
          None \<Rightarrow> (None, s)
        | Some entry \<Rightarrow>
            (let codeHash = getCodeHash env code;
                 isExpired = (real_of_int (now - e_timestamp entry) > getCacheTtlMs env);
                 codeChanged = (e_codeHash entry \<noteq> codeHash)
             in if isExpired \<or> codeChanged
                then (None, s \<lparr> analysisCache := (analysisCache s)(key := None) \<rparr>)
                else (Some (e_result entry), s)))"

definition setCachedResult ::
  "ext_env \<Rightarrow> int \<Rightarrow> string \<Rightarrow> int \<Rightarrow> int \<Rightarrow> string \<Rightarrow> ('c, 'g, 'h) AnalysisResult \<Rightarrow>
     ('c, 'g, 'h) ext_state \<Rightarrow> ('c, 'g, 'h) ext_state" where
  "setCachedResult env now filePath startLine endLine code result s =
     (let key = getCacheKey filePath startLine endLine in
        s \<lparr> analysisCache := (analysisCache s)(key \<mapsto>
              \<lparr> e_result = result, e_codeHash = getCodeHash env code, e_timestamp = now \<rparr>) \<rparr>)"

section \<open>extension: analyzeCode\<close>

text \<open>
  \<open>analyzeCode\<close> is an \<^verbatim>\<open>async\<close> function: it runs until an \<^verbatim>\<open>await\<close>, and goes on
  when the awaited promise settles; between the two, other calls of \<open>analyzeCode\<close> and
  the cancellation handler may run. A call is modelled by the piece of code that runs
  from each \<^verbatim>\<open>await\<close> to the next: a piece takes the state, returns the state after it,
  what it did (\<open>effect\<close>) and where the call waits next (\<open>task\<close>).
\<close>

record request =
  q_filePath :: string
  q_startLine :: int
  q_endLine :: int
  q_code :: string

datatype ('c, 'g, 'h) effect =
    ShowInformationMessage string
  | ShowWarningMessage string
  | ShowErrorMessage string
  | CreateOrShow "('c, 'g, 'h) AnalysisResult"
  | ExecuteCommand string
  | WithProgress string
  | ProgressReport string
  | GetClaudeApiKey
  | GitAnalyze string int int
  | CodeAnalyze string string 'g
  | GithubAnalyze string 'g

datatype ('c, 'g, 'h) task =
    AwaitApiKey request
  | AwaitWarningChoice request
  | AwaitGit request
  | AwaitCode request 'g
  | AwaitGithub request 'g 'c
  | Finished

text \<open>
  The message shown with a cached result; the words What is the Code: Refresh stand in
  double quotes (character 0x22).
\<close>

definition showingCached :: string where
  "showingCached =
     ''Showing cached analysis result. Use '' @ [CHR 0x22] @ ''What is the Code: Refresh'' @
     [CHR 0x22] @ '' for fresh analysis.''"

text \<open>From the call to the first \<^verbatim>\<open>await\<close>: the busy check and the cache lookup.\<close>

definition analyzeCode ::
  "ext_env \<Rightarrow> int \<Rightarrow> int \<Rightarrow> request \<Rightarrow> bool \<Rightarrow> ('c, 'g, 'h) ext_state \<Rightarrow>
     ('c, 'g, 'h) task \<times> ('c, 'g, 'h) ext_state \<times> ('c, 'g, 'h) effect list" where
  "analyzeCode env nowLookup nowAge req forceRefresh s =
     (if analysisInProgress s then
        (Finished, s, [ShowInformationMessage ''Analysis already in progress. Please wait.''])
      else
        (let s1 = s \<lparr> lastAnalysis :=
                        Some (q_filePath req, q_startLine req, q_endLine req, q_code req) \<rparr>;
             (cached, s2) =
               (if \<not> forceRefresh
                then getCachedResult env nowLookup (q_filePath req) (q_startLine req)
                       (q_endLine req) (q_code req) s1
                else (None, s1))
         in case cached of
              Some cachedResult \<Rightarrow>
                (Finished, s2,
                 [CreateOrShow (cachedResult \<lparr> r_fromCache := Some True,
                                   r_cacheAge := Some (nowAge - r_analyzedAt cachedResult) \<rparr>),
                  ShowInformationMessage showingCached])
            | None \<Rightarrow> (AwaitApiKey req, s2, [GetClaudeApiKey])))"

text \<open>The callback of \<^verbatim>\<open>withProgress\<close>, up to the first stage.\<close>

definition enterProgress ::
  "request \<Rightarrow> ('c, 'g, 'h) ext_state \<Rightarrow>
     ('c, 'g, 'h) task \<times> ('c, 'g, 'h) ext_state \<times> ('c, 'g, 'h) effect list" where
  "enterProgress req s =
     (let s1 = s \<lparr> analysisInProgress := True, analysisCancelled := False \<rparr> in
        if analysisCancelled s1 then
          (Finished, s1 \<lparr> analysisInProgress := False \<rparr>, [WithProgress ''Analyzing code...''])
        else
          (AwaitGit req, s1,
           [WithProgress ''Analyzing code...'', ProgressReport ''Fetching git history...'',
            GitAnalyze (q_filePath req) (q_startLine req) (q_endLine req)]))"

text \<open>After \<^verbatim>\<open>await getClaudeApiKey()\<close>: the key is a string or \<^verbatim>\<open>undefined\<close>.\<close>

definition afterApiKey ::
  "string option \<Rightarrow> request \<Rightarrow> ('c, 'g, 'h) ext_state \<Rightarrow>
     ('c, 'g, 'h) task \<times> ('c, 'g, 'h) ext_state \<times> ('c, 'g, 'h) effect list" where
  "afterApiKey claudeApiKey req s =
     (if claudeApiKey = None \<or> claudeApiKey = Some [] then
        (AwaitWarningChoice req, s,
         [ShowWarningMessage
            ''Claude API key not configured. AI analysis will use basic static analysis instead.''])
      else enterProgress req s)"

text \<open>After the warning: the button chosen, or \<^verbatim>\<open>undefined\<close> when it is dismissed.\<close>

definition afterWarningChoice ::
  "string option \<Rightarrow> request \<Rightarrow> ('c, 'g, 'h) ext_state \<Rightarrow>
     ('c, 'g, 'h) task \<times> ('c, 'g, 'h) ext_state \<times> ('c, 'g, 'h) effect list" where
  "afterWarningChoice action req s =
     (if action = Some ''Set API Key'' then
        (Finished, s, [ExecuteCommand ''whatIsTheCode.setClaudeApiKey''])
      else if action = None \<or> action = Some [] then (Finished, s, [])
      else enterProgress req s)"

text \<open>
  The \<^verbatim>\<open>catch\<close> and \<^verbatim>\<open>finally\<close> blocks, for a stage that throws, and the return of a
  cancelled analysis.
\<close>

definition errorMessageOf :: "thrown \<Rightarrow> string" where
  "errorMessageOf t = (case t of ThrownError e \<Rightarrow> message e | ThrownOther v \<Rightarrow> ''Unknown error'')"

definition stageFailed ::
  "thrown \<Rightarrow> ('c, 'g, 'h) ext_state \<Rightarrow>
     ('c, 'g, 'h) task \<times> ('c, 'g, 'h) ext_state \<times> ('c, 'g, 'h) effect list" where
  "stageFailed t s =
     (if analysisCancelled s then (Finished, s \<lparr> analysisInProgress := False \<rparr>, [])
      else (Finished, s \<lparr> analysisInProgress := False \<rparr>,
            [ShowErrorMessage (''Analysis failed'' @ '': '' @ errorMessageOf t)]))"

definition cancelledReturn ::
  "('c, 'g, 'h) ext_state \<Rightarrow>
     ('c, 'g, 'h) task \<times> ('c, 'g, 'h) ext_state \<times> ('c, 'g, 'h) effect list" where
  "cancelledReturn s = (Finished, s \<lparr> analysisInProgress := False \<rparr>, [])"

definition afterGit ::
  "thrown + 'g \<Rightarrow> request \<Rightarrow> ('c, 'g, 'h) ext_state \<Rightarrow>
     ('c, 'g, 'h) task \<times> ('c, 'g, 'h) ext_state \<times> ('c, 'g, 'h) effect list" where
  "afterGit outcome req s =
     (case outcome of
        Inl t \<Rightarrow> stageFailed t s
      | Inr gitAnalysis \<Rightarrow>
          if analysisCancelled s then cancelledReturn s
          else (AwaitCode req gitAnalysis, s,
                [ProgressReport ''Analyzing code with Claude AI...'',
                 CodeAnalyze (q_code req) (q_filePath req) gitAnalysis]))"

definition afterCode ::
  "thrown + 'c \<Rightarrow> request \<Rightarrow> 'g \<Rightarrow> ('c, 'g, 'h) ext_state \<Rightarrow>
     ('c, 'g, 'h) task \<times> ('c, 'g, 'h) ext_state \<times> ('c, 'g, 'h) effect list" where
  "afterCode outcome req gitAnalysis s =
     (case outcome of
        Inl t \<Rightarrow> stageFailed t s
      | Inr codeAnalysis \<Rightarrow>
          if analysisCancelled s then cancelledReturn s
          else (AwaitGithub req gitAnalysis codeAnalysis, s,
                [ProgressReport ''Fetching GitHub PRs...'',
                 GithubAnalyze (q_filePath req) gitAnalysis]))"

text \<open>
  After the last stage: the result is built (\<open>nowAnalyzed\<close> is the clock read by
  \<^verbatim>\<open>new Date()\<close>), stored (\<open>nowStored\<close> is the clock read by \<open>setCachedResult\<close>) and
  shown.
\<close>

definition afterGithub ::
  "ext_env \<Rightarrow> int \<Rightarrow> int \<Rightarrow> thrown + 'h \<Rightarrow> request \<Rightarrow> 'g \<Rightarrow> 'c \<Rightarrow> ('c, 'g, 'h) ext_state \<Rightarrow>
     ('c, 'g, 'h) task \<times> ('c, 'g, 'h) ext_state \<times> ('c, 'g, 'h) effect list" where
  "afterGithub env nowAnalyzed nowStored outcome req gitAnalysis codeAnalysis s =
     (case outcome of
        Inl t \<Rightarrow> stageFailed t s
      | Inr githubAnalysis \<Rightarrow>
          if analysisCancelled s then cancelledReturn s
          else
            (let result =
                   \<lparr> r_filePath = q_filePath req, r_startLine = q_startLine req,
                     r_endLine = q_endLine req, r_code = q_code req,
                     r_codeAnalysis = codeAnalysis, r_gitAnalysis = gitAnalysis,
                     r_githubAnalysis = githubAnalysis, r_analyzedAt = nowAnalyzed,
                     r_fromCache = None, r_cacheAge = None \<rparr>;
                 s1 = setCachedResult env nowStored (q_filePath req) (q_startLine req)
                        (q_endLine req) (q_code req) result s
             in (Finished, s1 \<lparr> analysisInProgress := False \<rparr>,
                 [ProgressReport ''Generating report...'', CreateOrShow result])))"

text \<open>
  The event loop. A command invokes \<open>analyzeCode\<close> (a new call, with its two clock
  readings); the promise a call awaits settles with a value; the user cancels the progress
  notification of a call. A value that is not the kind the call is waiting for, or an
  index that names no call, is no event of the program and changes nothing.
\<close>

datatype ('c, 'g, 'h) settled =
    ApiKey "string option"
  | Choice "string option"
  | GitDone "thrown + 'g"
  | CodeDone "thrown + 'c"
  | GithubDone "thrown + 'h" int int

datatype ('c, 'g, 'h) event =
    Invoked request bool int int
  | Settled nat "('c, 'g, 'h) settled"
  | CancellationRequested nat

record ('c, 'g, 'h) sys =
  globals :: "('c, 'g, 'h) ext_state"
  calls :: "('c, 'g, 'h) task list"
  effects :: "('c, 'g, 'h) effect list"

fun resume ::
  "ext_env \<Rightarrow> ('c, 'g, 'h) task \<Rightarrow> ('c, 'g, 'h) settled \<Rightarrow> ('c, 'g, 'h) ext_state \<Rightarrow>
     ('c, 'g, 'h) task \<times> ('c, 'g, 'h) ext_state \<times> ('c, 'g, 'h) effect list" where
  "resume env (AwaitApiKey req) (ApiKey k) s = afterApiKey k req s"
| "resume env (AwaitWarningChoice req) (Choice a) s = afterWarningChoice a req s"
| "resume env (AwaitGit req) (GitDone r) s = afterGit r req s"
| "resume env (AwaitCode req g) (CodeDone r) s = afterCode r req g s"
| "resume env (AwaitGithub req g c) (GithubDone r nowAnalyzed nowStored) s =
     afterGithub env nowAnalyzed nowStored r req g c s"
| "resume env t v s = (t, s, [])"

text \<open>A call whose stages are running: it is inside the \<^verbatim>\<open>withProgress\<close> callback.\<close>

fun inFlight :: "('c, 'g, 'h) task \<Rightarrow> bool" where
  "inFlight (AwaitGit req) = True"
| "inFlight (AwaitCode req g) = True"
| "inFlight (AwaitGithub req g c) = True"
| "inFlight t = False"

definition step :: "ext_env \<Rightarrow> ('c, 'g, 'h) sys \<Rightarrow> ('c, 'g, 'h) event \<Rightarrow> ('c, 'g, 'h) sys" where
  "step env y ev =
     (case ev of
        Invoked req forceRefresh nowLookup nowAge \<Rightarrow>
          (case analyzeCode env nowLookup nowAge req forceRefresh (globals y) of
             (t, s, es) \<Rightarrow> \<lparr> globals = s, calls = calls y @ [t], effects = effects y @ es \<rparr>)
      | Settled i v \<Rightarrow>
          (if i < length (calls y) then
             (case resume env (calls y ! i) v (globals y) of
                (t, s, es) \<Rightarrow>
                  \<lparr> globals = s, calls = (calls y)[i := t], effects = effects y @ es \<rparr>)
           else y)
      | CancellationRequested i \<Rightarrow>
          (if i < length (calls y) \<and> inFlight (calls y ! i) then
             y \<lparr> globals := (globals y) \<lparr> analysisCancelled := True \<rparr>,
                 effects := effects y @ [ShowInformationMessage ''Analysis cancelled.''] \<rparr>
           else y))"

definition run :: "ext_env \<Rightarrow> ('c, 'g, 'h) sys \<Rightarrow> ('c, 'g, 'h) event list \<Rightarrow> ('c, 'g, 'h) sys" where
  "run env y evs = foldl (step env) y evs"

text \<open>The extension after activation: an empty cache, no call, both flags down.\<close>

definition activated :: "('c, 'g, 'h) sys" where
  "activated =
     \<lparr> globals = \<lparr> analysisCache = Map.empty, lastAnalysis = None,
                   analysisInProgress = False, analysisCancelled = False \<rparr>,
       calls = [], effects = [] \<rparr>"

section \<open>Sample inputs\<close>

text \<open>
  Concrete inputs for the examples below. The digest of the sample environment is the
  text itself; the TTL is the default, 30 minutes.
\<close>

definition sampleEnv :: ext_env where
  "sampleEnv = \<lparr> md5 = (\<lambda>text. text), cacheTtlMinutes = 30 \<rparr>"

definition sampleRequest :: request where
  "sampleRequest =
     \<lparr> q_filePath = ''/w/auth.ts'', q_startLine = 10, q_endLine = 40, q_code = ''login(token)'' \<rparr>"

definition otherRequest :: request where
  "otherRequest =
     \<lparr> q_filePath = ''/w/db.ts'', q_startLine = 1, q_endLine = 20, q_code = ''query(sql)'' \<rparr>"

text \<open>The report of the sample request, assembled at instant 5000.\<close>

definition sampleResult :: "(string, string, string) AnalysisResult" where
  "sampleResult =
     \<lparr> r_filePath = ''/w/auth.ts'', r_startLine = 10, r_endLine = 40, r_code = ''login(token)'',
       r_codeAnalysis = ''code'', r_gitAnalysis = ''git'', r_githubAnalysis = ''github'',
       r_analyzedAt = 5000, r_fromCache = None, r_cacheAge = None \<rparr>"

text \<open>
  The module's state while the last stage of the sample request runs, and after the
  analysis has stored its report at instant 5001.
\<close>

definition samplePending :: "(string, string, string) ext_state" where
  "samplePending =
     \<lparr> analysisCache = Map.empty,
       lastAnalysis = Some (''/w/auth.ts'', 10, 40, ''login(token)''),
       analysisInProgress = True, analysisCancelled = False \<rparr>"

definition sampleStored :: "(string, string, string) ext_state" where
  "sampleStored =
     \<lparr> analysisCache =
         [''/w/auth.ts:10:40'' \<mapsto>
            \<lparr> e_result = sampleResult, e_codeHash = ''login(token)'', e_timestamp = 5001 \<rparr>],
       lastAnalysis = Some (''/w/auth.ts'', 10, 40, ''login(token)''),
       analysisInProgress = False, analysisCancelled = False \<rparr>"

section \<open>Properties of withRetry\<close>

lemma retryLoop_all_fail:
  assumes "alwaysFailsRetryable opts fn" and "attempt \<le> p_maxAttempts opts"
    and "fn (p_maxAttempts opts) = Inl t"
  shows "fst (retryLoop opts fn attempt delay lastError) = Inl (toError t) \<and>
         invocations (snd (retryLoop opts fn attempt delay lastError)) = nat (p_maxAttempts opts + 1 - attempt) \<and>
         sleeps (snd (retryLoop opts fn attempt delay lastError)) = delaysFrom opts delay (nat (p_maxAttempts opts - attempt))"
  using assms
proof (induction opts fn attempt delay lastError rule: retryLoop.induct)
  case (1 opts fn attempt delay lastError)
  from "1.prems"(1) obtain u where u: "fn attempt = Inl u" and ru: "p_retryableErrors opts (toError u)"
    unfolding alwaysFailsRetryable_def by (metis old.sum.simps(5,6) sum.collapse)
  show ?case
  proof (cases "attempt = p_maxAttempts opts")
    case True
    with u "1.prems" show ?thesis by (simp add: retryLoop.simps)
  next
    case False
    with "1.prems" have lt: "attempt + 1 \<le> p_maxAttempts opts" by simp
    have n1: "nat (p_maxAttempts opts + 1 - attempt) = Suc (nat (p_maxAttempts opts + 1 - (attempt + 1)))"
      using lt by simp
    have n2: "nat (p_maxAttempts opts - attempt) = Suc (nat (p_maxAttempts opts - (attempt + 1)))"
      using lt by simp
    note IH = "1.IH"[OF "1.prems"(2) u _ "1.prems"(1) lt "1.prems"(3)]
    show ?thesis
      using IH u ru False "1.prems"(2)
      apply (subst (1 2 3) retryLoop.simps)
      apply (simp add: n1 n2 case_prod_beta)
      done
  qed
qed

lemma delaysFrom_length: "length (delaysFrom opts d n) = n"
  by (induction n arbitrary: d) simp_all

lemma delaysFrom_capped:
  "d \<le> p_maxDelayMs opts \<Longrightarrow> x \<in> set (delaysFrom opts d n) \<Longrightarrow> x \<le> p_maxDelayMs opts"
proof (induction n arbitrary: d)
  case 0
  then show ?case by simp
next
  case (Suc n)
  have m: "min (d * p_backoffMultiplier opts) (p_maxDelayMs opts) \<le> p_maxDelayMs opts" by simp
  from Suc.prems(2) have "x = d \<or> x \<in> set (delaysFrom opts (min (d * p_backoffMultiplier opts) (p_maxDelayMs opts)) n)"
    by simp
  then show ?case using Suc.prems(1) Suc.IH[OF m] by blast
qed

lemma delaysFrom_tail_capped:
  "x \<in> set (tl (delaysFrom opts d n)) \<Longrightarrow> x \<le> p_maxDelayMs opts"
proof (cases n)
  case 0
  assume "x \<in> set (tl (delaysFrom opts d n))"
  with 0 show ?thesis by simp
next
  case (Suc m)
  assume "x \<in> set (tl (delaysFrom opts d n))"
  with Suc have "x \<in> set (delaysFrom opts (min (d * p_backoffMultiplier opts) (p_maxDelayMs opts)) m)"
    by simp
  then show ?thesis by (rule delaysFrom_capped[rotated]) simp
qed

lemma delaysFrom_lower:
  "0 \<le> d \<Longrightarrow> d \<le> p_maxDelayMs opts \<Longrightarrow> 1 \<le> p_backoffMultiplier opts \<Longrightarrow>
   x \<in> set (delaysFrom opts d n) \<Longrightarrow> d \<le> x"
proof (induction n arbitrary: d)
  case 0
  then show ?case by simp
next
  case (Suc n)
  let ?d' = "min (d * p_backoffMultiplier opts) (p_maxDelayMs opts)"
  have "d * 1 \<le> d * p_backoffMultiplier opts"
    using Suc.prems(1,3) by (rule_tac mult_left_mono) auto
  then have le: "d \<le> ?d'" using Suc.prems(2) by simp
  then have "0 \<le> ?d'" "?d' \<le> p_maxDelayMs opts" using Suc.prems(1) by auto
  from Suc.IH[OF this Suc.prems(3)] le Suc.prems(4) show ?case by auto
qed

lemma delaysFrom_sorted:
  "0 \<le> d \<Longrightarrow> d \<le> p_maxDelayMs opts \<Longrightarrow> 1 \<le> p_backoffMultiplier opts \<Longrightarrow>
   sorted (delaysFrom opts d n)"
proof (induction n arbitrary: d)
  case 0
  then show ?case by simp
next
  case (Suc n)
  let ?d' = "min (d * p_backoffMultiplier opts) (p_maxDelayMs opts)"
  have "d * 1 \<le> d * p_backoffMultiplier opts"
    using Suc.prems(1,3) by (rule_tac mult_left_mono) auto
  then have le: "d \<le> ?d'" using Suc.prems(2) by simp
  then have d': "0 \<le> ?d'" "?d' \<le> p_maxDelayMs opts" using Suc.prems(1) by auto
  have "\<forall>x \<in> set (delaysFrom opts ?d' n). d \<le> x"
    using delaysFrom_lower[OF d' Suc.prems(3)] le by fastforce
  with Suc.IH[OF d' Suc.prems(3)] show ?case by simp
qed

text \<open>
  C3 (as the code has it). When the merged policy has \<open>maxAttempts \<ge> 1\<close> and every
  call of the operation fails with an error the policy classifies as retryable,
  \<open>withRetry\<close> invokes the operation exactly \<open>maxAttempts\<close> times and throws the
  error of the last attempt. The delays slept are \<open>initialDelayMs\<close> first, as given,
  and then each time \<open>min (delay * backoffMultiplier) maxDelayMs\<close>: every delay after
  the first is at most \<open>maxDelayMs\<close>; all are when \<open>initialDelayMs \<le> maxDelayMs\<close>;
  and the sequence is non-decreasing when moreover \<open>0 \<le> initialDelayMs\<close> and
  \<open>backoffMultiplier \<ge> 1\<close>.
\<close>

theorem withRetry_exhaustion:
  assumes "opts = mergeOptions options"
    and "1 \<le> p_maxAttempts opts"
    and "alwaysFailsRetryable opts fn"
    and "fn (p_maxAttempts opts) = Inl t"
  shows "fst (withRetry fn options) = Inl (toError t) \<and>
         invocations (snd (withRetry fn options)) = nat (p_maxAttempts opts) \<and>
         sleeps (snd (withRetry fn options)) =
           delaysFrom opts (p_initialDelayMs opts) (nat (p_maxAttempts opts) - 1) \<and>
         (\<forall>d \<in> set (tl (sleeps (snd (withRetry fn options)))). d \<le> p_maxDelayMs opts) \<and>
         (p_initialDelayMs opts \<le> p_maxDelayMs opts \<longrightarrow>
            (\<forall>d \<in> set (sleeps (snd (withRetry fn options))). d \<le> p_maxDelayMs opts)) \<and>
         (0 \<le> p_initialDelayMs opts \<and> p_initialDelayMs opts \<le> p_maxDelayMs opts \<and>
          1 \<le> p_backoffMultiplier opts \<longrightarrow> sorted (sleeps (snd (withRetry fn options))))"
proof -
  have w: "withRetry fn options = retryLoop opts fn 1 (p_initialDelayMs opts) (JsError ''Unknown error'')"
    using assms(1) by (simp add: withRetry_def Let_def)
  have n: "nat (p_maxAttempts opts - 1) = nat (p_maxAttempts opts) - 1" by simp
  note L = retryLoop_all_fail[OF assms(3) assms(2) assms(4), of "p_initialDelayMs opts" "JsError ''Unknown error''"]
  have s: "sleeps (snd (withRetry fn options)) =
           delaysFrom opts (p_initialDelayMs opts) (nat (p_maxAttempts opts) - 1)"
    using L by (simp add: w n)
  show ?thesis
    unfolding s
    using L delaysFrom_tail_capped[of _ opts] delaysFrom_capped[of "p_initialDelayMs opts" opts]
      delaysFrom_sorted[of "p_initialDelayMs opts" opts]
    by (simp add: w)
qed

lemma timeout_retryable: "defaultRetryable (JsError ''timeout'')"
  by code_simp

theorem withRetry_exhaustion_witness:
  "alwaysFailsRetryable (mergeOptions \<lparr>maxAttempts = None, initialDelayMs = None, maxDelayMs = None,
       backoffMultiplier = None, retryableErrors = None\<rparr>)
     (\<lambda>k. Inl (ThrownError (JsError ''timeout'')) :: thrown + unit) \<and>
   fst (withRetry (\<lambda>k. Inl (ThrownError (JsError ''timeout'')) :: thrown + unit)
      \<lparr>maxAttempts = None, initialDelayMs = None, maxDelayMs = None,
       backoffMultiplier = None, retryableErrors = None\<rparr>) = Inl (JsError ''timeout'') \<and>
   invocations (snd (withRetry (\<lambda>k. Inl (ThrownError (JsError ''timeout'')) :: thrown + unit)
      \<lparr>maxAttempts = None, initialDelayMs = None, maxDelayMs = None,
       backoffMultiplier = None, retryableErrors = None\<rparr>)) = 3 \<and>
   sleeps (snd (withRetry (\<lambda>k. Inl (ThrownError (JsError ''timeout'')) :: thrown + unit)
      \<lparr>maxAttempts = None, initialDelayMs = None, maxDelayMs = None,
       backoffMultiplier = None, retryableErrors = None\<rparr>)) = [1000, 2000] \<and>
   sorted (sleeps (snd (withRetry (\<lambda>k. Inl (ThrownError (JsError ''timeout'')) :: thrown + unit)
      \<lparr>maxAttempts = None, initialDelayMs = None, maxDelayMs = None,
       backoffMultiplier = None, retryableErrors = None\<rparr>)))"
proof -
  let ?o = "\<lparr>maxAttempts = None, initialDelayMs = None, maxDelayMs = None,
       backoffMultiplier = None, retryableErrors = None\<rparr>"
  let ?f = "\<lambda>k::int. Inl (ThrownError (JsError ''timeout'')) :: thrown + unit"
  have m: "mergeOptions ?o = defaultOptions" by (simp add: mergeOptions_def)
  have a: "alwaysFailsRetryable (mergeOptions ?o) ?f"
    by (simp add: m alwaysFailsRetryable_def defaultOptions_def timeout_retryable)
  show ?thesis
    using withRetry_exhaustion[of "mergeOptions ?o" ?o ?f "ThrownError (JsError ''timeout'')"] a
    by (simp add: m defaultOptions_def numeral_2_eq_2)
qed

text \<open>
  The first delay is not capped: with \<open>initialDelayMs = 20000\<close>, \<open>maxDelayMs = 10000\<close>
  and \<open>backoffMultiplier = 2\<close> the loop sleeps 20000 and then 10000, so a delay exceeds
  \<open>maxDelayMs\<close> and the sequence decreases although the multiplier is at least 1.
\<close>

theorem withRetry_delay_cap_counterexample:
  "sleeps (snd (withRetry (\<lambda>k. Inl (ThrownError (JsError ''timeout'')) :: thrown + unit)
      \<lparr>maxAttempts = Some 3, initialDelayMs = Some 20000, maxDelayMs = Some 10000,
       backoffMultiplier = Some 2, retryableErrors = None\<rparr>)) = [20000, 10000] \<and>
   p_maxDelayMs (mergeOptions \<lparr>maxAttempts = Some 3, initialDelayMs = Some 20000, maxDelayMs = Some 10000,
       backoffMultiplier = Some 2, retryableErrors = None\<rparr>) = 10000"
  by (simp add: withRetry_def Let_def mergeOptions_def defaultOptions_def retryLoop.simps timeout_retryable)

text \<open>
  C10. With a policy whose \<open>maxAttempts\<close> is zero or negative the loop body is never
  entered: the operation is not invoked (the trace is empty) and \<open>withRetry\<close> throws
  the initial \<open>lastError\<close>, whose message is "Unknown error".
\<close>

theorem withRetry_no_attempts:
  "p_maxAttempts (mergeOptions options) \<le> 0 \<Longrightarrow>
   withRetry fn options = (Inl (JsError ''Unknown error''), [])"
  by (simp add: withRetry_def Let_def retryLoop.simps)

theorem withRetry_no_attempts_witness:
  "p_maxAttempts (mergeOptions \<lparr>maxAttempts = Some (- 2), initialDelayMs = None, maxDelayMs = None,
       backoffMultiplier = None, retryableErrors = None\<rparr>) \<le> 0 \<and>
   withRetry (\<lambda>k. Inr True :: thrown + bool) \<lparr>maxAttempts = Some (- 2), initialDelayMs = None, maxDelayMs = None,
       backoffMultiplier = None, retryableErrors = None\<rparr> = (Inl (JsError ''Unknown error''), []) \<and>
   invocations (snd (withRetry (\<lambda>k. Inr True :: thrown + bool) \<lparr>maxAttempts = Some (- 2), initialDelayMs = None, maxDelayMs = None,
       backoffMultiplier = None, retryableErrors = None\<rparr>)) = 0"
proof -
  let ?o = "\<lparr>maxAttempts = Some (- 2), initialDelayMs = None, maxDelayMs = None,
       backoffMultiplier = None, retryableErrors = None\<rparr>"
  have h: "p_maxAttempts (mergeOptions ?o) \<le> 0" by (simp add: mergeOptions_def)
  show ?thesis
    using h withRetry_no_attempts[OF h, of "\<lambda>k. Inr True :: thrown + bool"] by simp
qed

section \<open>Properties of the validation of the reasoning service's answer\<close>

lemma bind_err_Inr: "bind_err m f = Inr y \<longleftrightarrow> (\<exists>x. m = Inr x \<and> f x = Inr y)"
  by (cases m) (simp_all add: bind_err_def)
















lemma validateSuggestedTests_default: "\<not> isArray v \<Longrightarrow> validateSuggestedTests v = Inr []"
  by (cases v) simp_all






lemma testKey_Inr: "testKey t = Inr k \<Longrightarrow> k = keyStr t \<and> (\<exists>s. test_description t = JStr s)"
  by (auto simp: testKey_def keyStr_def typeAndDescription_def split: jsval.splits)

lemma uniqueTests_sound:
  "uniqueTests seen ts = Inr r \<Longrightarrow>
   distinct (map keyStr r) \<and> keyStr ` set r \<inter> seen = {} \<and> set r \<subseteq> set ts"
proof (induction ts arbitrary: seen r)
  case Nil
  then show ?case by simp
next
  case (Cons t ts)
  from Cons.prems obtain k where k: "testKey t = Inr k"
    and rest: "(if k \<in> seen then uniqueTests seen ts
                else bind_err (uniqueTests (insert k seen) ts) (\<lambda>r. Inr (t # r))) = Inr r"
    by (auto simp: bind_err_Inr)
  from testKey_Inr[OF k] have kk: "k = keyStr t" by auto
  show ?case
  proof (cases "k \<in> seen")
    case True
    with rest have "uniqueTests seen ts = Inr r" by simp
    from Cons.IH[OF this] show ?thesis by auto
  next
    case False
    with rest obtain r' where r': "uniqueTests (insert k seen) ts = Inr r'" and r: "r = t # r'"
      by (auto simp: bind_err_Inr)
    from Cons.IH[OF r'] False kk r show ?thesis by auto
  qed
qed

lemma mapE_Inr_all: "mapE f xs = Inr ys \<Longrightarrow> y \<in> set ys \<Longrightarrow> \<exists>x \<in> set xs. f x = Inr y"
  by (induction xs arbitrary: ys) (auto simp: bind_err_Inr)

lemma mapE_Inr_nth:
  "mapE f xs = Inr ys \<Longrightarrow> length ys = length xs \<and> (\<forall>i < length xs. f (xs ! i) = Inr (ys ! i))"
proof (induction xs arbitrary: ys)
  case Nil
  then show ?case by simp
next
  case (Cons x xs)
  then obtain y ys' where "f x = Inr y" "mapE f xs = Inr ys'" "ys = y # ys'"
    by (auto simp: bind_err_Inr)
  with Cons.IH[of ys'] show ?case by (auto simp: nth_Cons split: nat.splits)
qed

lemma oneOf_in: "dflt \<in> set valid \<Longrightarrow> oneOf valid dflt v \<in> set valid"
  by (cases v) simp_all

lemma validateTest_priority:
  "validateTest x = Inr t \<Longrightarrow> test_priority t \<in> set [''high'', ''medium'', ''low'']"
proof -
  assume a: "validateTest x = Inr t"
  have 2: "oneOf [''high'', ''medium'', ''low''] ''medium'' v \<in> set [''high'', ''medium'', ''low'']" for v
    by (rule oneOf_in) simp
  from a obtain p where "test_priority t = oneOf [''high'', ''medium'', ''low''] ''medium'' p"
    unfolding validateTest_def bind_err_Inr by auto
  with 2[of p] show ?thesis by simp
qed

lemma distinct_keyStr_imp:
  assumes "distinct (map keyStr ts)"
  shows "distinct (map typeAndDescription ts)"
proof -
  from assms have d: "distinct ts" and i: "inj_on keyStr (set ts)"
    by (simp_all add: distinct_map)
  have "inj_on typeAndDescription (set ts)"
  proof (rule inj_onI)
    fix a b assume ab: "a \<in> set ts" "b \<in> set ts" "typeAndDescription a = typeAndDescription b"
    then have "keyStr a = keyStr b" by (simp add: keyStr_def)
    with i ab show "a = b" by (auto dest: inj_onD)
  qed
  with d show ?thesis by (simp add: distinct_map)
qed

lemma validateSuggestedTests_sound:
  assumes "validateSuggestedTests tests = Inr ts"
  shows "sorted (map (\<lambda>t. priorityOrder (test_priority t)) ts) \<and>
         distinct (map typeAndDescription ts) \<and>
         (\<forall>t \<in> set ts. test_priority t \<in> set [''high'', ''medium'', ''low''])"
proof (cases "isArray tests")
  case False
  with assms have "ts = []" by (simp add: validateSuggestedTests_default)
  then show ?thesis by simp
next
  case True
  then obtain xs where xs: "tests = JArr xs" by (cases tests) simp_all
  with assms obtain validated unique where
    v: "mapE validateTest xs = Inr validated" and
    u: "uniqueTests {} validated = Inr unique" and
    ts: "ts = sort_key (\<lambda>t. priorityOrder (test_priority t)) unique"
    by (auto simp: bind_err_Inr)
  from uniqueTests_sound[OF u] have dk: "distinct (map keyStr unique)" and sub: "set unique \<subseteq> set validated"
    by auto
  have s: "sorted (map (\<lambda>t. priorityOrder (test_priority t)) ts)"
    unfolding ts by (rule sorted_sort_key)
  have "distinct (map typeAndDescription unique)" using dk by (rule distinct_keyStr_imp)
  then have d: "distinct (map typeAndDescription ts)"
    unfolding ts by (simp add: distinct_map)
  have p: "\<forall>t \<in> set ts. test_priority t \<in> set [''high'', ''medium'', ''low'']"
  proof
    fix t assume "t \<in> set ts"
    with ts sub have "t \<in> set validated" by auto
    from mapE_Inr_all[OF v this] obtain x where "validateTest x = Inr t" by blast
    then show "test_priority t \<in> set [''high'', ''medium'', ''low'']" by (rule validateTest_priority)
  qed
  from s d p show ?thesis by blast
qed

lemma assessRisks_levels:
  "r \<in> set (assessRisks code cplx deps) \<Longrightarrow>
   risk_level r \<in> set [''critical'', ''high'', ''medium'', ''low'']"
  by (auto simp: assessRisks_def Let_def split: if_splits)

text \<open>
  What the code does of the orderings: the reasoning-service strategy returns its suggested
  tests sorted priority-first (high, medium, low) with no two entries of the same type and
  lower-cased, trimmed description; the heuristic strategy returns its risks sorted
  critical-first (critical, high, medium, low). Every priority is one of high, medium,
  low and every level one of critical, high, medium, low, so the order is the one named.
\<close>

theorem risks_and_tests_ordering:
  "(\<forall>ts. validateSuggestedTests tests = Inr ts \<longrightarrow>
      sorted (map (\<lambda>t. priorityOrder (test_priority t)) ts) \<and>
      distinct (map typeAndDescription ts) \<and>
      (\<forall>t \<in> set ts. test_priority t \<in> set [''high'', ''medium'', ''low''])) \<and>
   sorted (map (\<lambda>r. riskOrder (risk_level r)) (assessRisks code cplx deps)) \<and>
   (\<forall>r \<in> set (assessRisks code cplx deps). risk_level r \<in> set [''critical'', ''high'', ''medium'', ''low''])"
proof (intro conjI allI impI ballI)
  fix ts assume a: "validateSuggestedTests tests = Inr ts"
  from validateSuggestedTests_sound[OF a]
  show "sorted (map (\<lambda>t. priorityOrder (test_priority t)) ts)"
    and "distinct (map typeAndDescription ts)" by simp_all
  fix t assume "t \<in> set ts"
  with validateSuggestedTests_sound[OF a]
  show "test_priority t \<in> set [''high'', ''medium'', ''low'']" by blast
next
  show "sorted (map (\<lambda>r. riskOrder (risk_level r)) (assessRisks code cplx deps))"
    unfolding assessRisks_def Let_def by (rule sorted_sort_key)
next
  fix r assume "r \<in> set (assessRisks code cplx deps)"
  then show "risk_level r \<in> set [''critical'', ''high'', ''medium'', ''low'']"
    by (rule assessRisks_levels)
qed

text \<open>
  The risks of the reasoning-service strategy are the risks of the answer, validated one
  by one, in the order of the answer.
\<close>

lemma validateRisks_elementwise:
  assumes "validateRisks (JArr rs) = Inr out"
  shows "length out = length rs \<and> (\<forall>i < length rs. validateRisk (rs ! i) = Inr (out ! i))"
proof -
  from assms have "mapE validateRisk rs = Inr out" by simp
  then show ?thesis by (rule mapE_Inr_nth)
qed

text \<open>
  C6 (where the code departs from it). The reasoning-service strategy does not sort its
  risks: for an answer whose risks are a low one followed by a critical one, the returned
  list is low, critical, which is not critical-first (the comparator's table gives low 3
  and critical 0). The heuristic strategy's \<open>assessRisks\<close> sorts, and
  \<open>validateSuggestedTests\<close> of the same strategy sorts its tests.
\<close>

theorem validateRisks_keeps_answer_order:
  "(case mapAnalysis [(''risks'', JArr [JObj [(''level'', JStr ''low'')], JObj [(''level'', JStr ''critical'')]])] of
      Inl e \<Rightarrow> [] | Inr r \<Rightarrow> map risk_level (risks r)) = [''low'', ''critical''] \<and>
   map riskOrder [''low'', ''critical''] = [3, 0] \<and>
   \<not> sorted (map riskOrder [''low'', ''critical''])"
  by (simp add: mapAnalysis_def field_def validateRisk_def bind_err_def js_or_def riskOrder_def)

lemma tests_example:
  "validateSuggestedTests (JArr
     [JObj [(''type'', JStr ''e2e''), (''description'', JStr '' Login Works ''), (''priority'', JStr ''low'')],
      JObj [(''type'', JStr ''e2e''), (''description'', JStr ''login works''), (''priority'', JStr ''high'')],
      JObj [(''type'', JStr ''unit''), (''description'', JStr ''parses''), (''priority'', JStr ''high'')]]) =
   Inr [\<lparr>test_type = ''unit'', test_description = JStr ''parses'',
          test_priority = ''high'', test_reason = JUndefined\<rparr>,
        \<lparr>test_type = ''e2e'', test_description = JStr '' Login Works '',
          test_priority = ''low'', test_reason = JUndefined\<rparr>]"
  by code_simp


lemma risks_example:
  "validateRisks (JArr [JObj [(''level'', JStr ''low'')], JObj [(''level'', JStr ''critical'')]]) =
   Inr [\<lparr>risk_level = ''low'', risk_description = JStr ''Risk identified'',
          risk_recommendation = JStr ''Review carefully before changes''\<rparr>,
        \<lparr>risk_level = ''critical'', risk_description = JStr ''Risk identified'',
          risk_recommendation = JStr ''Review carefully before changes''\<rparr>]"
  by (simp add: validateRisk_def bind_err_def js_or_def)

lemma assessRisks_example:
  "map risk_level (assessRisks ''x = eval(window.name)'' ''high'' []) = [''critical'', ''high'', ''medium'']"
  by code_simp

theorem risks_and_tests_ordering_witness:
  "(\<exists>ts. validateSuggestedTests (JArr
       [JObj [(''type'', JStr ''e2e''), (''description'', JStr '' Login Works ''), (''priority'', JStr ''low'')],
        JObj [(''type'', JStr ''e2e''), (''description'', JStr ''login works''), (''priority'', JStr ''high'')],
        JObj [(''type'', JStr ''unit''), (''description'', JStr ''parses''), (''priority'', JStr ''high'')]]) = Inr ts \<and>
      map test_type ts = [''unit'', ''e2e''] \<and>
      sorted (map (\<lambda>t. priorityOrder (test_priority t)) ts) \<and>
      distinct (map typeAndDescription ts)) \<and>
   map risk_level (assessRisks ''x = eval(window.name)'' ''high'' []) = [''critical'', ''high'', ''medium''] \<and>
   sorted (map (\<lambda>r. riskOrder (risk_level r)) (assessRisks ''x = eval(window.name)'' ''high'' []))"
proof -
  let ?tests = "JArr
       [JObj [(''type'', JStr ''e2e''), (''description'', JStr '' Login Works ''), (''priority'', JStr ''low'')],
        JObj [(''type'', JStr ''e2e''), (''description'', JStr ''login works''), (''priority'', JStr ''high'')],
        JObj [(''type'', JStr ''unit''), (''description'', JStr ''parses''), (''priority'', JStr ''high'')]]"
  note T = risks_and_tests_ordering[of ?tests "''x = eval(window.name)''" "''high''" "[]"]
  from tests_example obtain ts where ts: "validateSuggestedTests ?tests = Inr ts"
    and ty: "map test_type ts = [''unit'', ''e2e'']" by simp
  from T ts have 1: "sorted (map (\<lambda>t. priorityOrder (test_priority t)) ts) \<and>
      distinct (map typeAndDescription ts)" by blast
  from T have 2: "sorted (map (\<lambda>r. riskOrder (risk_level r)) (assessRisks ''x = eval(window.name)'' ''high'' []))"
    by blast
  have A: "\<exists>ts. validateSuggestedTests ?tests = Inr ts \<and>
      map test_type ts = [''unit'', ''e2e''] \<and>
      sorted (map (\<lambda>t. priorityOrder (test_priority t)) ts) \<and>
      distinct (map typeAndDescription ts)"
  proof (intro exI conjI)
    show "validateSuggestedTests ?tests = Inr ts" by (rule ts)
    show "map test_type ts = [''unit'', ''e2e'']" by (rule ty)
    show "sorted (map (\<lambda>t. priorityOrder (test_priority t)) ts)" using 1 by (rule conjunct1)
    show "distinct (map typeAndDescription ts)" using 1 by (rule conjunct2)
  qed
  show ?thesis
    by (intro conjI) (rule A, rule assessRisks_example, rule 2)
qed

section \<open>Properties of inferMainPurposeCategory\<close>

lemma startsWith_map: "startsWith s p \<Longrightarrow> startsWith (map f s) (map f p)"
  by (induction s p rule: startsWith.induct) simp_all

lemma str_includes_map: "str_includes s p \<Longrightarrow> str_includes (map f s) (map f p)"
proof (induction s)
  case Nil
  then show ?case by simp
next
  case (Cons c cs)
  then show ?case using startsWith_map[of "c # cs" p f] by auto
qed

lemma str_includes_toLowerCase:
  "str_includes s p \<Longrightarrow> toLowerCase p = p \<Longrightarrow> str_includes (toLowerCase s) p"
  using str_includes_map[of s p lowerChar] by (simp add: toLowerCase_def)

lemma login_lower: "toLowerCase ''login'' = ''login''"
  by code_simp

lemma firstMatch_first:
  "i < length rs \<Longrightarrow> fst (rs ! i) \<Longrightarrow> (\<forall>j < i. \<not> fst (rs ! j)) \<Longrightarrow> firstMatch rs d = snd (rs ! i)"
proof (induction rs arbitrary: i)
  case Nil
  then show ?case by simp
next
  case (Cons r rs)
  obtain c v where r: "r = (c, v)" by (cases r)
  show ?case
  proof (cases i)
    case 0
    with Cons.prems r show ?thesis by simp
  next
    case (Suc k)
    with Cons.prems have "\<not> fst ((r # rs) ! 0)" by blast
    then have nc: "\<not> c" using r by simp
    have "firstMatch rs d = snd (rs ! k)"
    proof (rule Cons.IH)
      show "k < length rs" using Cons.prems(1) Suc by simp
      show "fst (rs ! k)" using Cons.prems(2) Suc by simp
      show "\<forall>j<k. \<not> fst (rs ! j)"
      proof (intro allI impI)
        fix j assume "j < k"
        then have "Suc j < i" using Suc by simp
        with Cons.prems(3) have "\<not> fst ((r # rs) ! Suc j)" by blast
        then show "\<not> fst (rs ! j)" by simp
      qed
    qed
    with nc r Suc show ?thesis by simp
  qed
qed

lemma firstMatch_none: "(\<forall>j < length rs. \<not> fst (rs ! j)) \<Longrightarrow> firstMatch rs d = d"
proof (induction rs)
  case Nil
  then show ?case by simp
next
  case (Cons r rs)
  obtain c v where r: "r = (c, v)" by (cases r)
  from Cons.prems have "\<not> fst ((r # rs) ! 0)" by blast
  then have nc: "\<not> c" using r by simp
  have "\<forall>j < length rs. \<not> fst (rs ! j)"
  proof (intro allI impI)
    fix j assume "j < length rs"
    then have "Suc j < length (r # rs)" by simp
    with Cons.prems have "\<not> fst ((r # rs) ! Suc j)" by blast
    then show "\<not> fst (rs ! j)" by simp
  qed
  from Cons.IH[OF this] nc r show ?case by simp
qed

lemma infer_firstMatch:
  "inferMainPurposeCategory code filePath ct = firstMatch (categoryRules code filePath ct) ''unknown''"
  by (simp add: inferMainPurposeCategory_def categoryRules_def Let_def)

text \<open>
  C9. The heuristic category is the first match of the ordered chain testing,
  authentication, security, infrastructure, ui-ux, data-access, api-client, performance,
  legacy, utility, business-logic, and "unknown" when no rule matches: a rule decides
  exactly when its condition holds and the condition of every earlier rule fails. In
  particular a code text that contains "login" and "token", with a code type other than
  test and a file name with no testing indicator, gets the category "authentication".
\<close>

theorem category_chain:
  "inferMainPurposeCategory code filePath ct = firstMatch (categoryRules code filePath ct) ''unknown'' \<and>
   map snd (categoryRules code filePath ct) =
     [''testing'', ''authentication'', ''security'', ''infrastructure'', ''ui-ux'', ''data-access'',
      ''api-client'', ''performance'', ''legacy'', ''utility'', ''business-logic''] \<and>
   (\<forall>i < length (categoryRules code filePath ct).
      fst (categoryRules code filePath ct ! i) \<and>
      (\<forall>j < i. \<not> fst (categoryRules code filePath ct ! j)) \<longrightarrow>
      inferMainPurposeCategory code filePath ct = snd (categoryRules code filePath ct ! i)) \<and>
   ((\<forall>j < length (categoryRules code filePath ct). \<not> fst (categoryRules code filePath ct ! j)) \<longrightarrow>
      inferMainPurposeCategory code filePath ct = ''unknown'') \<and>
   (str_includes code ''login'' \<and> str_includes code ''token'' \<and>
    \<not> testingIndicators ct (toLowerCase (basename filePath)) \<longrightarrow>
      inferMainPurposeCategory code filePath ct = ''authentication'')"
proof (intro conjI allI impI)
  show "inferMainPurposeCategory code filePath ct = firstMatch (categoryRules code filePath ct) ''unknown''"
    by (rule infer_firstMatch)
  show "map snd (categoryRules code filePath ct) =
     [''testing'', ''authentication'', ''security'', ''infrastructure'', ''ui-ux'', ''data-access'',
      ''api-client'', ''performance'', ''legacy'', ''utility'', ''business-logic'']"
    by (simp add: categoryRules_def Let_def)
next
  fix i assume "i < length (categoryRules code filePath ct)"
    and "fst (categoryRules code filePath ct ! i) \<and> (\<forall>j < i. \<not> fst (categoryRules code filePath ct ! j))"
  then show "inferMainPurposeCategory code filePath ct = snd (categoryRules code filePath ct ! i)"
    unfolding infer_firstMatch by (intro firstMatch_first) simp_all
next
  assume "\<forall>j < length (categoryRules code filePath ct). \<not> fst (categoryRules code filePath ct ! j)"
  then show "inferMainPurposeCategory code filePath ct = ''unknown''"
    unfolding infer_firstMatch by (rule firstMatch_none)
next
  assume a: "str_includes code ''login'' \<and> str_includes code ''token'' \<and>
    \<not> testingIndicators ct (toLowerCase (basename filePath))"
  then have "str_includes (toLowerCase code) ''login''"
    by (intro str_includes_toLowerCase login_lower) simp
  then have "authenticationIndicators (toLowerCase code) (toLowerCase (basename filePath))"
    by (simp add: authenticationIndicators_def)
  with a show "inferMainPurposeCategory code filePath ct = ''authentication''"
    by (simp add: inferMainPurposeCategory_def Let_def)
qed


theorem category_chain_witness:
  "str_includes ''function login(u) { return u.token; }'' ''login'' \<and>
   str_includes ''function login(u) { return u.token; }'' ''token'' \<and>
   \<not> testingIndicators ''function'' (toLowerCase (basename ''/src/auth.ts'')) \<and>
   inferMainPurposeCategory ''function login(u) { return u.token; }'' ''/src/auth.ts'' ''function'' =
     ''authentication'' \<and>
   snd (categoryRules ''function login(u) { return u.token; }'' ''/src/auth.ts'' ''function'' ! 1) =
     ''authentication'' \<and>
   inferMainPurposeCategory ''x'' ''/src/a.ts'' ''unknown'' = ''unknown''"
proof -
  let ?c = "''function login(u) { return u.token; }''"
  let ?p = "''/src/auth.ts''"
  let ?t = "''function''"
  note T = category_chain[of ?c ?p ?t]
  note U = category_chain[of "''x''" "''/src/a.ts''" "''unknown''"]
  have h1: "str_includes ?c ''login''" by code_simp
  have h2: "str_includes ?c ''token''" by code_simp
  have h3: "\<not> testingIndicators ?t (toLowerCase (basename ?p))" by code_simp
  from T have "str_includes ?c ''login'' \<and> str_includes ?c ''token'' \<and>
      \<not> testingIndicators ?t (toLowerCase (basename ?p)) \<longrightarrow>
      inferMainPurposeCategory ?c ?p ?t = ''authentication''"
    by (elim conjE)
  with h1 h2 h3 have a: "inferMainPurposeCategory ?c ?p ?t = ''authentication''" by simp
  have len: "length (categoryRules ?c ?p ?t) = 11" by (simp add: categoryRules_def Let_def)
  have r1: "fst (categoryRules ?c ?p ?t ! 1)" by code_simp
  have r0: "\<not> fst (categoryRules ?c ?p ?t ! 0)" by code_simp
  have first: "\<forall>j < (1::nat). \<not> fst (categoryRules ?c ?p ?t ! j)" using r0 by simp
  from T have "\<forall>i < length (categoryRules ?c ?p ?t).
      fst (categoryRules ?c ?p ?t ! i) \<and> (\<forall>j < i. \<not> fst (categoryRules ?c ?p ?t ! j)) \<longrightarrow>
      inferMainPurposeCategory ?c ?p ?t = snd (categoryRules ?c ?p ?t ! i)"
    by (elim conjE)
  with len r1 first have "inferMainPurposeCategory ?c ?p ?t = snd (categoryRules ?c ?p ?t ! 1)"
    by simp
  with a have b: "snd (categoryRules ?c ?p ?t ! 1) = ''authentication''" by simp
  have fs: "map fst (categoryRules ''x'' ''/src/a.ts'' ''unknown'') = replicate 11 False" by code_simp
  have len': "length (categoryRules ''x'' ''/src/a.ts'' ''unknown'') = 11"
    by (simp add: categoryRules_def Let_def)
  have none: "\<forall>j < length (categoryRules ''x'' ''/src/a.ts'' ''unknown'').
      \<not> fst (categoryRules ''x'' ''/src/a.ts'' ''unknown'' ! j)"
  proof (intro allI impI)
    fix j assume j: "j < length (categoryRules ''x'' ''/src/a.ts'' ''unknown'')"
    then have "fst (categoryRules ''x'' ''/src/a.ts'' ''unknown'' ! j) =
               map fst (categoryRules ''x'' ''/src/a.ts'' ''unknown'') ! j" by simp
    also have "\<dots> = False" using j unfolding fs len' by simp
    finally show "\<not> fst (categoryRules ''x'' ''/src/a.ts'' ''unknown'' ! j)" by simp
  qed
  from U have "(\<forall>j < length (categoryRules ''x'' ''/src/a.ts'' ''unknown'').
      \<not> fst (categoryRules ''x'' ''/src/a.ts'' ''unknown'' ! j)) \<longrightarrow>
      inferMainPurposeCategory ''x'' ''/src/a.ts'' ''unknown'' = ''unknown''"
    by (elim conjE)
  with none have c: "inferMainPurposeCategory ''x'' ''/src/a.ts'' ''unknown'' = ''unknown''" by (rule rev_mp)
  show ?thesis by (intro conjI) (rule h1, rule h2, rule h3, rule a, rule b, rule c)
qed

section \<open>Properties of getPRsForCommit\<close>

text \<open>
  C7. Every pull-request record that \<open>getPRsForCommit\<close> produces with a merge timestamp
  (\<open>mergedAt\<close> is not \<^verbatim>\<open>null\<close>) reports the state "merged", whatever the raw state
  field of the response says.
\<close>

theorem merged_state_precedence:
  assumes "r \<in> set (getPRsForCommit response)"
    and "pr_mergedAt r = Some ts" and "isTimestamp ts"
  shows "pr_state r = ''merged''"
proof -
  from assms(1) obtain data pr where "response = Inr (PullRequests data)" "pr \<in> set data"
    and r: "r = toPullRequestInfo pr"
    by (cases response rule: getPRsForCommit.cases) auto
  from r assms(2) have "api_merged_at pr = Some ts" by (simp add: toPullRequestInfo_def)
  with assms(3) r show ?thesis by (simp add: toPullRequestInfo_def isTimestamp_def)
qed

theorem merged_state_precedence_witness:
  "\<lparr> pr_number = 7, pr_title = ''Fix'', pr_url = ''https://github.com/o/r/pull/7'', pr_author = ''Unknown'',
      pr_state = ''merged'', pr_createdAt = ''2024-01-01T00:00:00Z'',
      pr_mergedAt = Some ''2024-01-02T00:00:00Z'', pr_description = [], pr_labels = [''bug''] \<rparr>
     \<in> set (getPRsForCommit (Inr (PullRequests
         [\<lparr> api_number = 7, api_title = ''Fix'', api_html_url = ''https://github.com/o/r/pull/7'',
            api_user = None, api_state = ''closed'', api_created_at = ''2024-01-01T00:00:00Z'',
            api_merged_at = Some ''2024-01-02T00:00:00Z'', api_body = None,
            api_labels = [\<lparr> label_name = ''bug'' \<rparr>] \<rparr>]))) \<and>
   isTimestamp ''2024-01-02T00:00:00Z'' \<and>
   pr_state (hd (getPRsForCommit (Inr (PullRequests
         [\<lparr> api_number = 7, api_title = ''Fix'', api_html_url = ''https://github.com/o/r/pull/7'',
            api_user = None, api_state = ''closed'', api_created_at = ''2024-01-01T00:00:00Z'',
            api_merged_at = Some ''2024-01-02T00:00:00Z'', api_body = None,
            api_labels = [\<lparr> label_name = ''bug'' \<rparr>] \<rparr>])))) = ''merged''"
proof -
  let ?resp = "Inr (PullRequests
         [\<lparr> api_number = 7, api_title = ''Fix'', api_html_url = ''https://github.com/o/r/pull/7'',
            api_user = None, api_state = ''closed'', api_created_at = ''2024-01-01T00:00:00Z'',
            api_merged_at = Some ''2024-01-02T00:00:00Z'', api_body = None,
            api_labels = [\<lparr> label_name = ''bug'' \<rparr>] \<rparr>])"
  let ?r = "hd (getPRsForCommit ?resp)"
  have m: "?r \<in> set (getPRsForCommit ?resp)" by simp
  have t: "pr_mergedAt ?r = Some ''2024-01-02T00:00:00Z''" by (simp add: toPullRequestInfo_def)
  have i: "isTimestamp ''2024-01-02T00:00:00Z''" by (simp add: isTimestamp_def)
  have s: "pr_state ?r = ''merged''" by (rule merged_state_precedence[OF m t i])
  have e: "\<lparr> pr_number = 7, pr_title = ''Fix'', pr_url = ''https://github.com/o/r/pull/7'', pr_author = ''Unknown'',
      pr_state = ''merged'', pr_createdAt = ''2024-01-01T00:00:00Z'',
      pr_mergedAt = Some ''2024-01-02T00:00:00Z'', pr_description = [], pr_labels = [''bug''] \<rparr>
     \<in> set (getPRsForCommit ?resp)"
    by (simp add: toPullRequestInfo_def strOr_def truncateDescription_def)
  show ?thesis by (intro conjI) (rule e, rule i, rule s)
qed

section \<open>Properties of calculateOwnership\<close>





























text \<open>
  The doubles matter: 23 commits of 40 are 57.5 percent, the double \<open>(23 / 40) * 100\<close> is
  57.49999999999999, and the percentage is 57.
\<close>

lemma percentage_23_of_40: "percentageOf 23 40 = 57"
  by code_simp




section \<open>Properties of the cache and of analyzeCode\<close>

lemma getCachedResult_miss:
  "analysisCache s (getCacheKey filePath startLine endLine) = None \<Longrightarrow>
   getCachedResult env now filePath startLine endLine code s = (None, s)"
  by (simp add: getCachedResult_def Let_def)

lemma getCachedResult_hit:
  "analysisCache s (getCacheKey filePath startLine endLine) = Some entry \<Longrightarrow>
   real_of_int (now - e_timestamp entry) \<le> getCacheTtlMs env \<Longrightarrow>
   e_codeHash entry = getCodeHash env code \<Longrightarrow>
   getCachedResult env now filePath startLine endLine code s = (Some (e_result entry), s)"
  by (simp add: getCachedResult_def Let_def)



lemma cache_hit:
  assumes "\<not> analysisInProgress s"
    and "analysisCache s (getCacheKey (q_filePath req) (q_startLine req) (q_endLine req)) = Some entry"
    and "e_codeHash entry = getCodeHash env (q_code req)"
    and "real_of_int (nowLookup - e_timestamp entry) \<le> getCacheTtlMs env"
  shows "analyzeCode env nowLookup nowAge req False s =
           (Finished,
            s \<lparr> lastAnalysis := Some (q_filePath req, q_startLine req, q_endLine req, q_code req) \<rparr>,
            [CreateOrShow ((e_result entry) \<lparr> r_fromCache := Some True,
                              r_cacheAge := Some (nowAge - r_analyzedAt (e_result entry)) \<rparr>),
             ShowInformationMessage showingCached])"
proof -
  let ?s1 = "s \<lparr> lastAnalysis := Some (q_filePath req, q_startLine req, q_endLine req, q_code req) \<rparr>"
  from assms(2) have c: "analysisCache ?s1 (getCacheKey (q_filePath req) (q_startLine req) (q_endLine req)) = Some entry"
    by simp
  from getCachedResult_hit[OF c assms(4) assms(3)] assms(1)
  show ?thesis by (simp add: analyzeCode_def Let_def)
qed

text \<open>
  A request that arrives while the in-progress flag is set is rejected at once: the only
  effect is the busy message, no stage runs, and the module's state (the cache, the last
  analysis, the flags) and the other calls are as before.
\<close>

lemma busy_rejection:
  "analysisInProgress s \<Longrightarrow>
   analyzeCode env nowLookup nowAge req forceRefresh s =
     (Finished, s, [ShowInformationMessage ''Analysis already in progress. Please wait.''])"
  by (simp add: analyzeCode_def)

lemma busy_rejection_step:
  "analysisInProgress (globals y) \<Longrightarrow>
   step env y (Invoked req forceRefresh nowLookup nowAge) =
     y \<lparr> calls := calls y @ [Finished],
         effects := effects y @ [ShowInformationMessage ''Analysis already in progress. Please wait.''] \<rparr>"
  by (simp add: step_def busy_rejection)

text \<open>
  C2. Let an analysis of a request complete its last stage without being cancelled: it
  stores and shows its report \<open>first\<close>, without cache marks. When the same request, with
  the same code text and without the force-refresh flag, is submitted next, within the TTL
  of the stored entry and with a clock that has not gone back behind the instant of the
  analysis, \<open>analyzeCode\<close> finishes at the cache lookup: it runs no stage and shows
  \<open>first\<close> with \<open>fromCache\<close> set to true and \<open>cacheAge\<close> set to a non-negative
  number, every other field as stored.
\<close>

theorem cached_second_invocation:
  assumes "\<not> analysisCancelled s"
    and "afterGithub env nowAnalyzed nowStored (Inr githubAnalysis) req g c s = (t1, s1, es1)"
    and "real_of_int (nowLookup - nowStored) \<le> getCacheTtlMs env"
    and "nowAnalyzed \<le> nowAge"
  shows "\<exists>first.
           es1 = [ProgressReport ''Generating report...'', CreateOrShow first] \<and>
           r_fromCache first = None \<and> r_cacheAge first = None \<and>
           analyzeCode env nowLookup nowAge req False s1 =
             (Finished,
              s1 \<lparr> lastAnalysis := Some (q_filePath req, q_startLine req, q_endLine req, q_code req) \<rparr>,
              [CreateOrShow (first \<lparr> r_fromCache := Some True,
                                r_cacheAge := Some (nowAge - r_analyzedAt first) \<rparr>),
               ShowInformationMessage showingCached]) \<and>
           0 \<le> nowAge - r_analyzedAt first"
proof -
  let ?first = "\<lparr> r_filePath = q_filePath req, r_startLine = q_startLine req,
                     r_endLine = q_endLine req, r_code = q_code req,
                     r_codeAnalysis = c, r_gitAnalysis = g,
                     r_githubAnalysis = githubAnalysis, r_analyzedAt = nowAnalyzed,
                     r_fromCache = None, r_cacheAge = None \<rparr>"
  let ?entry = "\<lparr> e_result = ?first, e_codeHash = getCodeHash env (q_code req), e_timestamp = nowStored \<rparr>"
  from assms(1,2) have es1: "es1 = [ProgressReport ''Generating report...'', CreateOrShow ?first]"
    and s1: "s1 = (setCachedResult env nowStored (q_filePath req) (q_startLine req)
                        (q_endLine req) (q_code req) ?first s) \<lparr> analysisInProgress := False \<rparr>"
    by (auto simp: afterGithub_def Let_def)
  have np: "\<not> analysisInProgress s1" by (simp add: s1)
  have ce: "analysisCache s1 (getCacheKey (q_filePath req) (q_startLine req) (q_endLine req)) = Some ?entry"
    by (simp add: s1 setCachedResult_def Let_def)
  have h: "e_codeHash ?entry = getCodeHash env (q_code req)" by simp
  have w: "real_of_int (nowLookup - e_timestamp ?entry) \<le> getCacheTtlMs env" using assms(3) by simp
  from cache_hit[OF np ce h w, of nowAge]
  have a: "analyzeCode env nowLookup nowAge req False s1 =
             (Finished,
              s1 \<lparr> lastAnalysis := Some (q_filePath req, q_startLine req, q_endLine req, q_code req) \<rparr>,
              [CreateOrShow (?first \<lparr> r_fromCache := Some True,
                                r_cacheAge := Some (nowAge - r_analyzedAt ?first) \<rparr>),
               ShowInformationMessage showingCached])"
    by simp
  have n: "0 \<le> nowAge - r_analyzedAt ?first" using assms(4) by simp
  show ?thesis
    by (rule exI[of _ ?first]) (use es1 a n in simp)
qed


lemma sample_key: "getCacheKey ''/w/auth.ts'' 10 40 = ''/w/auth.ts:10:40''"
  by code_simp

lemma other_key: "getCacheKey ''/w/db.ts'' 1 20 = ''/w/db.ts:1:20''"
  by code_simp

lemma sample_ttl: "getCacheTtlMs sampleEnv = 1800000"
  by (simp add: getCacheTtlMs_def sampleEnv_def)

lemma sample_hash: "getCodeHash sampleEnv text = text"
  by (simp add: getCodeHash_def sampleEnv_def)

lemma sample_afterGithub:
  "afterGithub sampleEnv 5000 5001 (Inr ''github'') sampleRequest ''git'' ''code'' samplePending =
     (Finished, sampleStored, [ProgressReport ''Generating report...'', CreateOrShow sampleResult])"
  by (simp add: afterGithub_def Let_def setCachedResult_def samplePending_def sampleStored_def
      sampleRequest_def sampleResult_def sample_key sample_hash sample_ttl)

lemma sample_run:
  "run sampleEnv activated
     [Invoked sampleRequest False 1000 1000, Settled 0 (ApiKey (Some ''sk-1'')),
      Settled 0 (GitDone (Inr ''git'')), Settled 0 (CodeDone (Inr ''code'')),
      Settled 0 (GithubDone (Inr ''github'') 5000 5001)] =
   \<lparr> globals = sampleStored, calls = [Finished],
     effects =
       [GetClaudeApiKey, WithProgress ''Analyzing code...'',
        ProgressReport ''Fetching git history...'', GitAnalyze ''/w/auth.ts'' 10 40,
        ProgressReport ''Analyzing code with Claude AI...'', CodeAnalyze ''login(token)'' ''/w/auth.ts'' ''git'',
        ProgressReport ''Fetching GitHub PRs...'', GithubAnalyze ''/w/auth.ts'' ''git'',
        ProgressReport ''Generating report...'', CreateOrShow sampleResult] \<rparr>"
  by (simp add: run_def step_def activated_def analyzeCode_def getCachedResult_def Let_def
      afterApiKey_def enterProgress_def afterGit_def afterCode_def afterGithub_def
      setCachedResult_def sampleStored_def sampleRequest_def sampleResult_def sample_key
      sample_hash sample_ttl)



theorem cached_second_invocation_witness:
  "\<not> analysisCancelled samplePending \<and>
   afterGithub sampleEnv 5000 5001 (Inr ''github'') sampleRequest ''git'' ''code'' samplePending =
     (Finished, sampleStored, [ProgressReport ''Generating report...'', CreateOrShow sampleResult]) \<and>
   real_of_int (65001 - 5001) \<le> getCacheTtlMs sampleEnv \<and>
   analyzeCode sampleEnv 65001 66000 sampleRequest False sampleStored =
     (Finished,
      sampleStored,
      [CreateOrShow (sampleResult \<lparr> r_fromCache := Some True, r_cacheAge := Some 61000 \<rparr>),
       ShowInformationMessage showingCached])"
proof -
  have nc: "\<not> analysisCancelled samplePending" by (simp add: samplePending_def)
  have w: "real_of_int (65001 - 5001) \<le> getCacheTtlMs sampleEnv" by (simp add: sample_ttl)
  have m: "(5000::int) \<le> 66000" by simp
  from cached_second_invocation[OF nc sample_afterGithub w m]
  obtain first where f: "[ProgressReport ''Generating report...'', CreateOrShow sampleResult] =
        [ProgressReport ''Generating report...'', CreateOrShow first]"
    and a: "analyzeCode sampleEnv 65001 66000 sampleRequest False sampleStored =
             (Finished,
              sampleStored \<lparr> lastAnalysis := Some (q_filePath sampleRequest, q_startLine sampleRequest,
                   q_endLine sampleRequest, q_code sampleRequest) \<rparr>,
              [CreateOrShow (first \<lparr> r_fromCache := Some True,
                                r_cacheAge := Some (66000 - r_analyzedAt first) \<rparr>),
               ShowInformationMessage showingCached])"
    by blast
  from f have first: "first = sampleResult" by simp
  have l: "sampleStored \<lparr> lastAnalysis := Some (q_filePath sampleRequest, q_startLine sampleRequest,
                   q_endLine sampleRequest, q_code sampleRequest) \<rparr> = sampleStored"
    by (simp add: sampleStored_def sampleRequest_def)
  have age: "66000 - r_analyzedAt sampleResult = 61000" by (simp add: sampleResult_def)
  from a have r: "analyzeCode sampleEnv 65001 66000 sampleRequest False sampleStored =
     (Finished,
      sampleStored,
      [CreateOrShow (sampleResult \<lparr> r_fromCache := Some True, r_cacheAge := Some 61000 \<rparr>),
       ShowInformationMessage showingCached])"
    unfolding first l age .
  show ?thesis by (intro conjI) (rule nc, rule sample_afterGithub, rule w, rule r)
qed

lemma race_step1: "step sampleEnv (activated :: (string, string, string) sys) (Invoked sampleRequest False 1000 1000) =
   \<lparr> globals = \<lparr> analysisCache = Map.empty, lastAnalysis = Some (''/w/auth.ts'', 10, 40, ''login(token)''),
                   analysisInProgress = False, analysisCancelled = False \<rparr>,
       calls = [AwaitApiKey sampleRequest], effects = [GetClaudeApiKey] \<rparr>"
  by (simp add: step_def activated_def analyzeCode_def getCachedResult_def Let_def sampleRequest_def sample_key)

lemma race_step2: "step sampleEnv \<lparr> globals = \<lparr> analysisCache = Map.empty, lastAnalysis = Some (''/w/auth.ts'', 10, 40, ''login(token)''),
                   analysisInProgress = False, analysisCancelled = False \<rparr>,
       calls = [AwaitApiKey sampleRequest], effects = [GetClaudeApiKey] \<rparr> (Invoked otherRequest False 1001 1001) =
   \<lparr> globals = \<lparr> analysisCache = Map.empty, lastAnalysis = Some (''/w/db.ts'', 1, 20, ''query(sql)''),
                   analysisInProgress = False, analysisCancelled = False \<rparr>,
       calls = [AwaitApiKey sampleRequest, AwaitApiKey otherRequest], effects = [GetClaudeApiKey, GetClaudeApiKey :: (string, string, string) effect] \<rparr>"
  by (simp add: step_def analyzeCode_def getCachedResult_def Let_def otherRequest_def other_key)


lemma race_step3: "step sampleEnv \<lparr> globals = \<lparr> analysisCache = Map.empty, lastAnalysis = Some (''/w/db.ts'', 1, 20, ''query(sql)''),
                   analysisInProgress = False, analysisCancelled = False \<rparr>,
       calls = [AwaitApiKey sampleRequest, AwaitApiKey otherRequest], effects = [GetClaudeApiKey, GetClaudeApiKey :: (string, string, string) effect] \<rparr>
       (Settled 0 (ApiKey (Some ''sk-1''))) =
   \<lparr> globals = \<lparr> analysisCache = Map.empty, lastAnalysis = Some (''/w/db.ts'', 1, 20, ''query(sql)''),
                   analysisInProgress = True, analysisCancelled = False \<rparr>,
       calls = [AwaitGit sampleRequest, AwaitApiKey otherRequest],
       effects = [GetClaudeApiKey, GetClaudeApiKey, WithProgress ''Analyzing code...'',
         ProgressReport ''Fetching git history...'', GitAnalyze ''/w/auth.ts'' 10 40] \<rparr>"
  by (simp add: step_def afterApiKey_def enterProgress_def Let_def sampleRequest_def)

lemma race_step4: "step sampleEnv \<lparr> globals = \<lparr> analysisCache = Map.empty, lastAnalysis = Some (''/w/db.ts'', 1, 20, ''query(sql)''),
                   analysisInProgress = True, analysisCancelled = False \<rparr>,
       calls = [AwaitGit sampleRequest, AwaitApiKey otherRequest],
       effects = [GetClaudeApiKey, GetClaudeApiKey, WithProgress ''Analyzing code...'',
         ProgressReport ''Fetching git history...'', GitAnalyze ''/w/auth.ts'' 10 40 :: (string, string, string) effect] \<rparr>
       (Settled 1 (ApiKey (Some ''sk-1''))) =
   \<lparr> globals = \<lparr> analysisCache = Map.empty, lastAnalysis = Some (''/w/db.ts'', 1, 20, ''query(sql)''),
                   analysisInProgress = True, analysisCancelled = False \<rparr>,
       calls = [AwaitGit sampleRequest, AwaitGit otherRequest],
       effects = [GetClaudeApiKey, GetClaudeApiKey, WithProgress ''Analyzing code...'',
         ProgressReport ''Fetching git history...'', GitAnalyze ''/w/auth.ts'' 10 40,
         WithProgress ''Analyzing code...'',
         ProgressReport ''Fetching git history...'', GitAnalyze ''/w/db.ts'' 1 20] \<rparr>"
  by (simp add: step_def afterApiKey_def enterProgress_def Let_def otherRequest_def)

lemma race_run:
  "run sampleEnv (activated :: (string, string, string) sys)
      [Invoked sampleRequest False 1000 1000, Invoked otherRequest False 1001 1001,
       Settled 0 (ApiKey (Some ''sk-1'')), Settled 1 (ApiKey (Some ''sk-1''))] =
   \<lparr> globals = \<lparr> analysisCache = Map.empty, lastAnalysis = Some (''/w/db.ts'', 1, 20, ''query(sql)''),
                   analysisInProgress = True, analysisCancelled = False \<rparr>,
       calls = [AwaitGit sampleRequest, AwaitGit otherRequest],
       effects = [GetClaudeApiKey, GetClaudeApiKey, WithProgress ''Analyzing code...'',
         ProgressReport ''Fetching git history...'', GitAnalyze ''/w/auth.ts'' 10 40,
         WithProgress ''Analyzing code...'',
         ProgressReport ''Fetching git history...'', GitAnalyze ''/w/db.ts'' 1 20] \<rparr>"
  by (simp add: run_def race_step1 race_step2 race_step3 race_step4[unfolded One_nat_def])

text \<open>
  C4 (where the code departs from it). The in-progress flag is raised only inside the
  progress callback, after \<open>analyzeCode\<close> has awaited the API key. A second request that
  arrives while the first awaits the key passes the busy check too, and once both keys
  have arrived both analyses run their stages at the same time.
\<close>

theorem two_analyses_in_flight:
  "calls (run sampleEnv (activated :: (string, string, string) sys)
      [Invoked sampleRequest False 1000 1000, Invoked otherRequest False 1001 1001,
       Settled 0 (ApiKey (Some ''sk-1'')), Settled 1 (ApiKey (Some ''sk-1''))]) =
     [AwaitGit sampleRequest, AwaitGit otherRequest] \<and>
   length (filter inFlight (calls (run sampleEnv (activated :: (string, string, string) sys)
      [Invoked sampleRequest False 1000 1000, Invoked otherRequest False 1001 1001,
       Settled 0 (ApiKey (Some ''sk-1'')), Settled 1 (ApiKey (Some ''sk-1''))]))) = 2 \<and>
   filter (\<lambda>e. case e of GitAnalyze f a b \<Rightarrow> True | _ \<Rightarrow> False)
     (effects (run sampleEnv (activated :: (string, string, string) sys)
      [Invoked sampleRequest False 1000 1000, Invoked otherRequest False 1001 1001,
       Settled 0 (ApiKey (Some ''sk-1'')), Settled 1 (ApiKey (Some ''sk-1''))])) =
     [GitAnalyze ''/w/auth.ts'' 10 40, GitAnalyze ''/w/db.ts'' 1 20]"
  unfolding race_run by simp


end
